theory Spec2Isabelle
  imports Complex_Main
begin

section \<open>Python values\<close>

text \<open>
  The incident pipeline of \<^verbatim>\<open>app/main.py\<close> works on the values that
  \<^verbatim>\<open>json.loads\<close> produces and on the dictionaries built from them.

  A Python float is modelled by \<open>pyfloat\<close>: a finite value is the real number it
  stands for (rounding to 53 bits is not modelled, and a float literal of the source
  denotes the number it is written as), and the three special values that
  \<^verbatim>\<open>json.loads\<close> and \<^verbatim>\<open>float\<close> can deliver are kept apart. A Python
  string is a \<open>string\<close>, one HOL character per code point.
\<close>

datatype pyfloat = Finite real | PosInf | NegInf | NaN

datatype pyval =
    PNone
  | PBool bool
  | PInt int
  | PFloat pyfloat
  | PDecimal pyfloat
  | PStr string
  | PList "pyval list"
  | PDict "(pyval \<times> pyval) list"

type_synonym dict = "(pyval \<times> pyval) list"

text \<open>
  Exceptions: the class decides which handler catches, the message is carried along. The
  classes are leaves, none a subclass of another, as the three \<^verbatim>\<open>litellm\<close>
  exceptions of the source are among themselves; \<open>OtherException\<close> stands for every
  other subclass of \<^verbatim>\<open>Exception\<close>.
\<close>

datatype exc_class =
    RateLimitError | APIError | AuthenticationError
  | TypeError | ValueError | OverflowError | KeyError | AttributeError
  | RuntimeError | OtherException

datatype exc = Exc (exc_class: exc_class) (message: string)

subsection \<open>Float comparison\<close>

text \<open>\<^verbatim>\<open>a < b\<close> on floats: every comparison with NaN is false.\<close>

fun float_lt :: "pyfloat \<Rightarrow> pyfloat \<Rightarrow> bool" where
  "float_lt NaN _ = False"
| "float_lt _ NaN = False"
| "float_lt (Finite x) (Finite y) = (x < y)"
| "float_lt (Finite x) PosInf = True"
| "float_lt (Finite x) NegInf = False"
| "float_lt PosInf _ = False"
| "float_lt NegInf NegInf = False"
| "float_lt NegInf _ = True"

fun float_eq :: "pyfloat \<Rightarrow> pyfloat \<Rightarrow> bool" where
  "float_eq NaN _ = False"
| "float_eq _ NaN = False"
| "float_eq a b = (a = b)"

definition float_le :: "pyfloat \<Rightarrow> pyfloat \<Rightarrow> bool" where
  "float_le a b = (float_lt a b \<or> float_eq a b)"

text \<open>\<^verbatim>\<open>max(a, b)\<close> keeps its first argument unless the second is greater.\<close>

definition py_max :: "pyfloat \<Rightarrow> pyfloat \<Rightarrow> pyfloat" where
  "py_max a b = (if float_lt a b then b else a)"

text \<open>\<^verbatim>\<open>min(a, b)\<close> keeps its first argument unless the second is smaller.\<close>

definition py_min :: "real \<Rightarrow> real \<Rightarrow> real" where
  "py_min a b = (if b < a then b else a)"

subsection \<open>Truth value, equality of keys, dictionaries\<close>

fun truthy :: "pyval \<Rightarrow> bool" where
  "truthy PNone = False"
| "truthy (PBool b) = b"
| "truthy (PInt n) = (n \<noteq> 0)"
| "truthy (PFloat f) = (f \<noteq> Finite 0)"
| "truthy (PDecimal f) = (f \<noteq> Finite 0)"
| "truthy (PStr s) = (s \<noteq> [])"
| "truthy (PList xs) = (xs \<noteq> [])"
| "truthy (PDict kvs) = (kvs \<noteq> [])"

fun num_val :: "pyval \<Rightarrow> pyfloat option" where
  "num_val (PBool b) = Some (Finite (if b then 1 else 0))"
| "num_val (PInt n) = Some (Finite (real_of_int n))"
| "num_val (PFloat f) = Some f"
| "num_val (PDecimal f) = Some f"
| "num_val _ = None"

text \<open>
  \<^verbatim>\<open>==\<close> on hashable values, as a dictionary compares its keys: numbers by value
  (\<^verbatim>\<open>1 == True == 1.0\<close>), everything else structurally.
\<close>

definition key_eq :: "pyval \<Rightarrow> pyval \<Rightarrow> bool" where
  "key_eq a b =
     (case (num_val a, num_val b) of
        (Some x, Some y) \<Rightarrow> float_eq x y
      | (None, None) \<Rightarrow> a = b
      | _ \<Rightarrow> False)"

fun hashable :: "pyval \<Rightarrow> bool" where
  "hashable (PList xs) = False"
| "hashable (PDict kvs) = False"
| "hashable _ = True"

text \<open>\<^verbatim>\<open>d.get(k)\<close> and \<^verbatim>\<open>d.get(k, default)\<close>.\<close>

fun dict_get :: "dict \<Rightarrow> pyval \<Rightarrow> pyval option" where
  "dict_get [] k = None"
| "dict_get ((k', v) # kvs) k = (if key_eq k' k then Some v else dict_get kvs k)"

definition dict_get_default :: "dict \<Rightarrow> pyval \<Rightarrow> pyval \<Rightarrow> pyval" where
  "dict_get_default d k dflt = (case dict_get d k of Some v \<Rightarrow> v | None \<Rightarrow> dflt)"

text \<open>
  \<^verbatim>\<open>d[k] = v\<close>: an existing entry keeps its place and its key, a new one goes to the
  end.
\<close>

fun dict_setitem :: "dict \<Rightarrow> pyval \<Rightarrow> pyval \<Rightarrow> dict" where
  "dict_setitem [] k v = [(k, v)]"
| "dict_setitem ((k', v') # kvs) k v =
     (if key_eq k' k then (k', v) # kvs else (k', v') # dict_setitem kvs k v)"

text \<open>
  An element of the iterable given to \<^verbatim>\<open>dict.update\<close> must itself be a sequence of
  length two: a list, a string or (iterated by its keys) a dictionary.
\<close>

fun pair_of :: "pyval \<Rightarrow> exc + (pyval \<times> pyval)" where
  "pair_of (PList [k, v]) = Inr (k, v)"
| "pair_of (PList xs) = Inl (Exc ValueError ''dictionary update sequence element has wrong length'')"
| "pair_of (PStr [a, b]) = Inr (PStr [a], PStr [b])"
| "pair_of (PStr s) = Inl (Exc ValueError ''dictionary update sequence element has wrong length'')"
| "pair_of (PDict [(k1, v1), (k2, v2)]) = Inr (k1, k2)"
| "pair_of (PDict kvs) = Inl (Exc ValueError ''dictionary update sequence element has wrong length'')"
| "pair_of _ = Inl (Exc TypeError ''cannot convert dictionary update sequence element to a sequence'')"

fun update_pairs :: "dict \<Rightarrow> pyval list \<Rightarrow> exc + dict" where
  "update_pairs d [] = Inr d"
| "update_pairs d (x # xs) =
     (case pair_of x of
        Inl e \<Rightarrow> Inl e
      | Inr (k, v) \<Rightarrow>
          if hashable k then update_pairs (dict_setitem d k v) xs
          else Inl (Exc TypeError ''unhashable type''))"

text \<open>
  \<^verbatim>\<open>d.update(other)\<close>: a dictionary is copied entry by entry; any other iterable is
  read as a sequence of pairs (a string is iterated character by character); a value that
  cannot be iterated raises.
\<close>

fun dict_update :: "dict \<Rightarrow> pyval \<Rightarrow> exc + dict" where
  "dict_update d (PDict kvs) = Inr (foldl (\<lambda>d' (k, v). dict_setitem d' k v) d kvs)"
| "dict_update d (PList xs) = update_pairs d xs"
| "dict_update d (PStr s) = update_pairs d (map (\<lambda>c. PStr [c]) s)"
| "dict_update d _ = Inl (Exc TypeError ''object is not iterable'')"

section \<open>The retry wrapper\<close>

text \<open>
  \<^verbatim>\<open>exponential_backoff_retry(fn, retries, base_interval, max_interval,
  allowed_exceptions)\<close>. The wrapped call \<open>fn\<close> acts on the state \<open>'s\<close> of the outside
  world and either returns or raises. The waits handed to \<^verbatim>\<open>time.sleep\<close> are
  logged, oldest first.
\<close>

definition backoff_wait :: "real \<Rightarrow> real \<Rightarrow> nat \<Rightarrow> real" where
  "backoff_wait base_interval max_interval attempt =
     py_min max_interval (base_interval * 2 ^ (attempt - 1))"

text \<open>
  The loop \<^verbatim>\<open>for attempt in range(1, retries + 1)\<close> with \<open>n\<close> iterations left.
  An exception of an allowed class is remembered, its wait is slept
  (\<^verbatim>\<open>time.sleep\<close> refuses a negative length) and the loop goes on; any other
  exception, \<^verbatim>\<open>AuthenticationError\<close> after being logged, leaves the function at
  once. After the loop \<^verbatim>\<open>raise last_exc\<close> raises the remembered exception, and a
  \<^verbatim>\<open>TypeError\<close> when there is none. A wait too long for the clock (beyond some
  nine thousand million seconds), which \<^verbatim>\<open>time.sleep\<close> refuses as well, is not
  modelled; the default intervals stay far below it.
\<close>

fun retry_loop ::
  "('s \<Rightarrow> (exc + 'a) \<times> 's) \<Rightarrow> real \<Rightarrow> real \<Rightarrow> exc_class list \<Rightarrow>
   nat \<Rightarrow> nat \<Rightarrow> exc option \<Rightarrow> 's \<times> real list \<Rightarrow> (exc + 'a) \<times> 's \<times> real list" where
  "retry_loop fn base_interval max_interval allowed 0 attempt last_exc (s, slept) =
     (case last_exc of
        None \<Rightarrow> (Inl (Exc TypeError ''exceptions must derive from BaseException''), s, slept)
      | Some e \<Rightarrow> (Inl e, s, slept))"
| "retry_loop fn base_interval max_interval allowed (Suc n) attempt last_exc (s, slept) =
     (case fn s of
        (Inr v, s') \<Rightarrow> (Inr v, s', slept)
      | (Inl e, s') \<Rightarrow>
          if exc_class e \<in> set allowed then
            (let wait = backoff_wait base_interval max_interval attempt in
             if wait < 0 then (Inl (Exc ValueError ''sleep length must be non-negative''), s', slept)
             else retry_loop fn base_interval max_interval allowed n (Suc attempt) (Some e)
                    (s', slept @ [wait]))
          else (Inl e, s', slept))"

definition exponential_backoff_retry ::
  "('s \<Rightarrow> (exc + 'a) \<times> 's) \<Rightarrow> int \<Rightarrow> real \<Rightarrow> real \<Rightarrow> exc_class list \<Rightarrow>
   's \<times> real list \<Rightarrow> (exc + 'a) \<times> 's \<times> real list" where
  "exponential_backoff_retry fn retries base_interval max_interval allowed_exceptions w =
     retry_loop fn base_interval max_interval allowed_exceptions (nat retries) 1 None w"

text \<open>The default arguments of the signature.\<close>

definition default_retries :: int where "default_retries = 3"
definition default_base_interval :: real where "default_base_interval = 1.0"
definition default_max_interval :: real where "default_max_interval = 10.0"
definition default_allowed_exceptions :: "exc_class list" where
  "default_allowed_exceptions = [RateLimitError, APIError]"

definition retry_default ::
  "('s \<Rightarrow> (exc + 'a) \<times> 's) \<Rightarrow> 's \<times> real list \<Rightarrow> (exc + 'a) \<times> 's \<times> real list" where
  "retry_default fn w =
     exponential_backoff_retry fn default_retries default_base_interval default_max_interval
       default_allowed_exceptions w"

text \<open>A call counter around \<open>fn\<close>, to speak about the number of attempts.\<close>

definition counted :: "('s \<Rightarrow> (exc + 'a) \<times> 's) \<Rightarrow> 's \<times> nat \<Rightarrow> (exc + 'a) \<times> 's \<times> nat" where
  "counted fn = (\<lambda>(s, c). case fn s of (r, s') \<Rightarrow> (r, s', Suc c))"

text \<open>The state of the world after \<open>j\<close> calls of \<open>fn\<close>.\<close>

fun state_after :: "('s \<Rightarrow> (exc + 'a) \<times> 's) \<Rightarrow> nat \<Rightarrow> 's \<Rightarrow> 's" where
  "state_after fn 0 s = s"
| "state_after fn (Suc j) s = state_after fn j (snd (fn s))"

section \<open>Structured-output recovery\<close>

text \<open>
  \<^verbatim>\<open>re.search(r"\{.*\}", val, re.DOTALL)\<close>: the match starts at the first opening
  brace and, the star being greedy and the dot matching newlines, ends at the last
  closing brace after it; there is no match when no closing brace follows.
\<close>

definition brace_span :: "string \<Rightarrow> string option" where
  "brace_span val =
     (let from_open = dropWhile (\<lambda>c. c \<noteq> CHR ''{'') val;
          span = rev (dropWhile (\<lambda>c. c \<noteq> CHR ''}'') (rev from_open))
      in if span = [] then None else Some span)"

text \<open>
  \<^verbatim>\<open>_parse_possible_json(val)\<close>. \<^verbatim>\<open>json.loads\<close> is the standard library's
  parser, taken as the parameter \<open>loads\<close>: \<open>None\<close> when it raises.
\<close>

definition parse_possible_json :: "(string \<Rightarrow> pyval option) \<Rightarrow> pyval \<Rightarrow> pyval" where
  "parse_possible_json loads val =
     (if \<not> truthy val then PDict []
      else case val of
        PDict kvs \<Rightarrow> val
      | PStr s \<Rightarrow>
          (case loads s of
             Some v \<Rightarrow> v
           | None \<Rightarrow>
               (case brace_span s of
                  None \<Rightarrow> PDict []
                | Some m \<Rightarrow> (case loads m of Some v \<Rightarrow> v | None \<Rightarrow> PDict [])))
      | _ \<Rightarrow> PDict [])"

section \<open>The pipeline orchestrator\<close>

subsection \<open>Helpers of the language\<close>

text \<open>\<^verbatim>\<open>a or b\<close>.\<close>

definition py_or :: "pyval \<Rightarrow> pyval \<Rightarrow> pyval" where
  "py_or a b = (if truthy a then a else b)"

fun str_contains :: "string \<Rightarrow> string \<Rightarrow> bool" where
  "str_contains needle [] = (needle = [])"
| "str_contains needle (c # cs) =
     (take (length needle) (c # cs) = needle \<or> str_contains needle cs)"

text \<open>
  \<^verbatim>\<open>needle in container\<close> for a string \<open>needle\<close>: a substring test on a string,
  membership on a list, a key test on a dictionary; a value that is no container raises.
\<close>

fun py_in :: "string \<Rightarrow> pyval \<Rightarrow> exc + bool" where
  "py_in needle (PStr s) = Inr (str_contains needle s)"
| "py_in needle (PList xs) = Inr (PStr needle \<in> set xs)"
| "py_in needle (PDict kvs) = Inr (dict_get kvs (PStr needle) \<noteq> None)"
| "py_in needle _ = Inl (Exc TypeError ''argument is not iterable'')"

fun as_strs :: "pyval list \<Rightarrow> string list option" where
  "as_strs [] = Some []"
| "as_strs (PStr s # xs) = (case as_strs xs of Some ss \<Rightarrow> Some (s # ss) | None \<Rightarrow> None)"
| "as_strs (_ # xs) = None"

fun intercalate :: "string \<Rightarrow> string list \<Rightarrow> string" where
  "intercalate sep [] = []"
| "intercalate sep [s] = s"
| "intercalate sep (s # t # ss) = s @ sep @ intercalate sep (t # ss)"

text \<open>\<^verbatim>\<open>sep.join(xs)\<close>: every item must be a string.\<close>

definition str_join :: "string \<Rightarrow> pyval list \<Rightarrow> exc + string" where
  "str_join sep xs =
     (case as_strs xs of
        Some ss \<Rightarrow> Inr (intercalate sep ss)
      | None \<Rightarrow> Inl (Exc TypeError ''sequence item: expected str instance''))"

text \<open>
  \<^verbatim>\<open>float(x)\<close>. Parsing a string is the built-in's work, taken as the parameter
  \<open>fos\<close> (\<open>None\<close> when the text is no number); an integer beyond the range of a
  double raises, and one within it is kept exactly where \<^verbatim>\<open>float\<close> rounds to 53
  bits.
\<close>

definition float_int_bound :: int where
  "float_int_bound = 2 ^ 1024 - 2 ^ 970"

fun py_float :: "(string \<Rightarrow> pyfloat option) \<Rightarrow> pyval \<Rightarrow> exc + pyfloat" where
  "py_float fos (PFloat f) = Inr f"
| "py_float fos (PDecimal f) = Inr f"
| "py_float fos (PInt n) =
     (if \<bar>n\<bar> < float_int_bound then Inr (Finite (real_of_int n))
      else Inl (Exc OverflowError ''int too large to convert to float''))"
| "py_float fos (PBool b) = Inr (Finite (if b then 1 else 0))"
| "py_float fos (PStr s) =
     (case fos s of
        Some f \<Rightarrow> Inr f
      | None \<Rightarrow> Inl (Exc ValueError ''could not convert string to float''))"
| "py_float fos _ = Inl (Exc TypeError ''float() argument must be a string or a real number'')"

subsection \<open>\<^verbatim>\<open>convert_floats\<close>\<close>

fun convert_floats :: "pyval \<Rightarrow> pyval" where
  "convert_floats (PFloat f) = PDecimal f"
| "convert_floats (PDict kvs) = PDict (map (\<lambda>kv. (fst kv, convert_floats (snd kv))) kvs)"
| "convert_floats (PList xs) = PList (map convert_floats xs)"
| "convert_floats v = v"

subsection \<open>Alerts, crew results, responses\<close>

datatype SeverityEnum = low | medium | high

record alert =
  incident_id :: "string option"
  description :: string
  severity :: SeverityEnum
  metrics :: dict

text \<open>
  The two checks of the \<^verbatim>\<open>Alert\<close> model: \<^verbatim>\<open>constr(min_length=1)\<close> and
  \<^verbatim>\<open>description_not_blank\<close>, which refuses a description that \<^verbatim>\<open>strip()\<close>
  empties. The severity is an enumeration by its type.
\<close>

definition py_isspace :: "char \<Rightarrow> bool" where
  "py_isspace c =
     (let n = (of_char c :: nat) in (9 \<le> n \<and> n \<le> 13) \<or> (28 \<le> n \<and> n \<le> 32) \<or> n = 133 \<or> n = 160)"

definition description_not_blank :: "string \<Rightarrow> bool" where
  "description_not_blank v = (\<not> list_all py_isspace v)"

definition valid_alert :: "alert \<Rightarrow> bool" where
  "valid_alert a = (1 \<le> length (description a) \<and> description_not_blank (description a))"

text \<open>
  What the loop reads of one element of \<^verbatim>\<open>result.tasks_output\<close>: the attributes
  \<^verbatim>\<open>agent\<close> (\<open>PStr []\<close> when absent), \<^verbatim>\<open>raw\<close> and \<^verbatim>\<open>output\<close> (the field \<open>output_attr\<close>)
  (\<open>PNone\<close> when absent), and \<^verbatim>\<open>str(t)\<close>. Of the result itself: the attribute
  \<^verbatim>\<open>tasks_output\<close> (empty when absent) and \<^verbatim>\<open>str(result)\<close>.
\<close>

record task_output =
  agent :: pyval
  raw :: pyval
  output_attr :: pyval
  task_str :: string

record crew_result =
  tasks_output :: "task_output list"
  result_str :: string

record response =
  status :: string
  resp_incident_id :: string
  resolution :: dict

subsection \<open>Extracting the stage outputs\<close>

text \<open>
  The loop over \<^verbatim>\<open>tasks_output\<close> inside \<^verbatim>\<open>try ... except Exception\<close>: an
  exception (only the two \<^verbatim>\<open>in\<close> tests can raise) ends the loop and keeps what
  was assigned before it.
\<close>

fun extract_loop ::
  "(string \<Rightarrow> pyval option) \<Rightarrow> task_output list \<Rightarrow> pyval \<times> pyval \<Rightarrow> pyval \<times> pyval" where
  "extract_loop loads [] (parsed_analyzer, parsed_executor) = (parsed_analyzer, parsed_executor)"
| "extract_loop loads (t # ts) (parsed_analyzer, parsed_executor) =
     (let agent_name = py_or (agent t) (PStr []);
          raw_output0 = py_or (raw t) (output_attr t);
          raw_output = (if \<not> truthy raw_output0 then PStr (task_str t) else raw_output0);
          parsed_json = parse_possible_json loads raw_output
      in case py_in ''Resolution Generator'' agent_name of
           Inl e \<Rightarrow> (parsed_analyzer, parsed_executor)
         | Inr is_analyzer \<Rightarrow>
             (let parsed_analyzer' = (if is_analyzer then parsed_json else parsed_analyzer)
              in case py_in ''Fix Executor'' agent_name of
                   Inl e \<Rightarrow> (parsed_analyzer', parsed_executor)
                 | Inr is_executor \<Rightarrow>
                     extract_loop loads ts
                       (parsed_analyzer', if is_executor then parsed_json else parsed_executor)))"

definition extract_outputs :: "(string \<Rightarrow> pyval option) \<Rightarrow> crew_result \<Rightarrow> pyval \<times> pyval" where
  "extract_outputs loads result = extract_loop loads (tasks_output result) (PDict [], PDict [])"

subsection \<open>Merging the resolution\<close>

definition default_resolution :: dict where
  "default_resolution =
     [(PStr ''issue'', PStr ''Unknown''),
      (PStr ''root_cause'', PStr ''Unknown''),
      (PStr ''impact'', PStr ''Unknown''),
      (PStr ''resolution'', PStr ''Manual investigation required''),
      (PStr ''confidence'', PFloat (Finite 0.7)),
      (PStr ''executed'', PBool False)]"

definition overlay :: "dict \<Rightarrow> pyval \<Rightarrow> exc + dict" where
  "overlay res parsed = (if truthy parsed then dict_update res parsed else Inr res)"

definition flatten_command_id :: "dict \<Rightarrow> exc + dict" where
  "flatten_command_id res =
     (case dict_get res (PStr ''command_id'') of
        Some (PList xs) \<Rightarrow>
          (case str_join '','' xs of
             Inl e \<Rightarrow> Inl e
           | Inr s \<Rightarrow> Inr (dict_setitem res (PStr ''command_id'') (PStr s)))
      | _ \<Rightarrow> Inr res)"

definition merge_resolution :: "pyval \<Rightarrow> pyval \<Rightarrow> exc + dict" where
  "merge_resolution parsed_analyzer parsed_executor =
     (case overlay default_resolution parsed_analyzer of
        Inl e \<Rightarrow> Inl e
      | Inr res1 \<Rightarrow>
          (case overlay res1 parsed_executor of
             Inl e \<Rightarrow> Inl e
           | Inr res2 \<Rightarrow> flatten_command_id res2))"

subsection \<open>The final decision\<close>

definition final_decision :: "(string \<Rightarrow> pyfloat option) \<Rightarrow> dict \<Rightarrow> exc + (string \<times> dict)" where
  "final_decision fos res =
     (case py_float fos (dict_get_default res (PStr ''confidence'') (PFloat (Finite 0.7))) of
        Inl e \<Rightarrow> Inl e
      | Inr confidence \<Rightarrow>
          if dict_get res (PStr ''executed'') = Some (PBool True) then
            Inr (''resolved'',
                 dict_setitem res (PStr ''confidence'') (PFloat (py_max confidence (Finite 0.95))))
          else if float_lt confidence (Finite 0.8) then Inr (''pending_human'', res)
          else Inr (''resolved'', res))"

subsection \<open>\<^verbatim>\<open>process_alert\<close>\<close>

text \<open>
  What the endpoint takes from outside: the two library parsers, the identifier
  \<^verbatim>\<open>uuid.uuid4()\<close> would draw, the clock reading of the audit record, the crew
  (\<^verbatim>\<open>crew.kickoff\<close>, which returns a result or raises) and the audit table
  (\<^verbatim>\<open>put_item\<close>, which may raise). The world is the state of these services, the
  log of the waits slept, and the log of the items handed to \<^verbatim>\<open>put_item\<close>.
  The four task descriptions and the crew built from them reach the rest of the function
  only through \<^verbatim>\<open>crew.kickoff\<close>.
\<close>

record 's externals =
  json_loads :: "string \<Rightarrow> pyval option"
  float_of_str :: "string \<Rightarrow> pyfloat option"
  uuid4 :: string
  now_isoformat :: string
  kickoff :: "alert \<Rightarrow> 's \<Rightarrow> (exc + crew_result) \<times> 's"
  put_item :: "pyval \<Rightarrow> 's \<Rightarrow> exc option \<times> 's"

record 's world =
  ext :: 's
  slept :: "real list"
  audit_writes :: "pyval list"

definition unavailable_resolution :: dict where
  "unavailable_resolution =
     [(PStr ''issue'', PStr ''LLM unavailable''),
      (PStr ''root_cause'', PStr ''Rate limited or service error''),
      (PStr ''impact'', PStr ''Unknown''),
      (PStr ''resolution'', PStr ''Manual investigation required''),
      (PStr ''confidence'', PFloat (Finite 0.0)),
      (PStr ''executed'', PBool False)]"

definition audit_item :: "string \<Rightarrow> string \<Rightarrow> dict \<Rightarrow> string \<Rightarrow> string \<Rightarrow> pyval" where
  "audit_item iid timestamp res actions st =
     convert_floats (PDict
       [(PStr ''incident_id'', PStr iid),
        (PStr ''timestamp'', PStr timestamp),
        (PStr ''resolution'', PDict res),
        (PStr ''actions'', PStr actions),
        (PStr ''human_intervention'', PBool (st = ''pending_human''))])"

definition process_alert ::
  "'s externals \<Rightarrow> alert \<Rightarrow> 's world \<Rightarrow> (exc + response) \<times> 's world" where
  "process_alert X a w =
     (let iid = (case incident_id a of
                   Some i \<Rightarrow> if i \<noteq> [] then i else uuid4 X
                 | None \<Rightarrow> uuid4 X)
      in case retry_default (kickoff X a) (ext w, slept w) of
           (Inl e, s1, sl) \<Rightarrow>
             if exc_class e \<in> {RateLimitError, APIError} then
               (Inr \<lparr>status = ''pending_human'', resp_incident_id = iid,
                     resolution = unavailable_resolution\<rparr>,
                w\<lparr>ext := s1, slept := sl\<rparr>)
             else (Inl e, w\<lparr>ext := s1, slept := sl\<rparr>)
         | (Inr result, s1, sl) \<Rightarrow>
             (case extract_outputs (json_loads X) result of
                (parsed_analyzer, parsed_executor) \<Rightarrow>
                  (case merge_resolution parsed_analyzer parsed_executor of
                     Inl e \<Rightarrow> (Inl e, w\<lparr>ext := s1, slept := sl\<rparr>)
                   | Inr res \<Rightarrow>
                       (case final_decision (float_of_str X) res of
                          Inl e \<Rightarrow> (Inl e, w\<lparr>ext := s1, slept := sl\<rparr>)
                        | Inr (st, res') \<Rightarrow>
                            (let item = audit_item iid (now_isoformat X) res' (result_str result) st
                             in case put_item X item s1 of
                                  (Some e, s2) \<Rightarrow>
                                    (Inl e, w\<lparr>ext := s2, slept := sl,
                                              audit_writes := audit_writes w @ [item]\<rparr>)
                                | (None, s2) \<Rightarrow>
                                    (Inr \<lparr>status = st, resp_incident_id = iid, resolution = res'\<rparr>,
                                     w\<lparr>ext := s2, slept := sl,
                                       audit_writes := audit_writes w @ [item]\<rparr>))))))"

section \<open>The retrieval tool\<close>

text \<open>
  \<^verbatim>\<open>RAGTool._run\<close> of \<^verbatim>\<open>app/tools.py\<close>. The services it calls are parameters,
  each able to raise: building the search client, the embedding model (its decoded
  response body), the nearest-neighbour search (its response to an index name and a request body) and the cross-encoder (one
  score per pair).
\<close>

record rag_externals =
  get_opensearch_client :: "exc option"
  invoke_model :: "string \<Rightarrow> exc + pyval"
  search :: "string \<Rightarrow> pyval \<Rightarrow> exc + pyval"
  predict :: "(string \<times> pyval) list \<Rightarrow> exc + real list"

text \<open>\<^verbatim>\<open>x[key]\<close> with a string key.\<close>

fun subscript :: "pyval \<Rightarrow> string \<Rightarrow> exc + pyval" where
  "subscript (PDict kvs) key =
     (case dict_get kvs (PStr key) of
        Some v \<Rightarrow> Inr v
      | None \<Rightarrow> Inl (Exc KeyError key))"
| "subscript (PList xs) key = Inl (Exc TypeError ''list indices must be integers or slices'')"
| "subscript (PStr s) key = Inl (Exc TypeError ''string indices must be integers'')"
| "subscript _ key = Inl (Exc TypeError ''object is not subscriptable'')"

text \<open>\<^verbatim>\<open>x.get(key, default)\<close>: only a dictionary has the method.\<close>

fun get_method :: "pyval \<Rightarrow> string \<Rightarrow> pyval \<Rightarrow> exc + pyval" where
  "get_method (PDict kvs) key dflt = Inr (dict_get_default kvs (PStr key) dflt)"
| "get_method _ key dflt = Inl (Exc AttributeError ''object has no attribute get'')"

text \<open>The elements a \<^verbatim>\<open>for\<close> loop sees.\<close>

fun iterate :: "pyval \<Rightarrow> exc + pyval list" where
  "iterate (PList xs) = Inr xs"
| "iterate (PDict kvs) = Inr (map fst kvs)"
| "iterate (PStr s) = Inr (map (\<lambda>c. PStr [c]) s)"
| "iterate _ = Inl (Exc TypeError ''object is not iterable'')"

text \<open>\<^verbatim>\<open>[hit["_source"]["content"] for hit in hits]\<close>.\<close>

fun contents_of :: "pyval list \<Rightarrow> exc + pyval list" where
  "contents_of [] = Inr []"
| "contents_of (hit # hits) =
     (case subscript hit ''_source'' of
        Inl e \<Rightarrow> Inl e
      | Inr src \<Rightarrow>
          (case subscript src ''content'' of
             Inl e \<Rightarrow> Inl e
           | Inr doc \<Rightarrow>
               (case contents_of hits of
                  Inl e \<Rightarrow> Inl e
                | Inr docs \<Rightarrow> Inr (doc # docs))))"

text \<open>
  \<^verbatim>\<open>sorted(zip(docs, scores), key=lambda x: x[1], reverse=True)[:3]\<close>: a stable
  sort by descending score, cut to three. The scores are real numbers; a NaN among them,
  on which the comparisons of \<^verbatim>\<open>sorted\<close> give no order, is not modelled.
\<close>

definition rerank :: "pyval list \<Rightarrow> real list \<Rightarrow> (pyval \<times> real) list" where
  "rerank docs scores = take 3 (sort_key (\<lambda>x. - snd x) (zip docs scores))"

text \<open>The search request: the ten nearest neighbours of the query's embedding.\<close>

definition query_body :: "pyval \<Rightarrow> pyval" where
  "query_body query_embedding =
     PDict [(PStr ''size'', PInt 10),
            (PStr ''query'',
             PDict [(PStr ''knn'',
                     PDict [(PStr ''vector_field'',
                             PDict [(PStr ''vector'', query_embedding),
                                    (PStr ''k'', PInt 10)])])])]"

text \<open>The body of the \<^verbatim>\<open>try\<close> block.\<close>

definition rag_body :: "rag_externals \<Rightarrow> string \<Rightarrow> exc + pyval list" where
  "rag_body X query =
     (case get_opensearch_client X of
        Some e \<Rightarrow> Inl e
      | None \<Rightarrow>
     (case invoke_model X query of
        Inl e \<Rightarrow> Inl e
      | Inr resp_body \<Rightarrow>
     (case get_method resp_body ''embedding'' (PList []) of
        Inl e \<Rightarrow> Inl e
      | Inr query_embedding \<Rightarrow>
          if \<not> truthy query_embedding then Inr []
          else
     (case search X ''runbooks'' (query_body query_embedding) of
        Inl e \<Rightarrow> Inl e
      | Inr search_response \<Rightarrow>
     (case subscript search_response ''hits'' of
        Inl e \<Rightarrow> Inl e
      | Inr hits_obj \<Rightarrow>
     (case subscript hits_obj ''hits'' of
        Inl e \<Rightarrow> Inl e
      | Inr hits_list \<Rightarrow>
     (case iterate hits_list of
        Inl e \<Rightarrow> Inl e
      | Inr hits \<Rightarrow>
     (case contents_of hits of
        Inl e \<Rightarrow> Inl e
      | Inr docs \<Rightarrow>
          if docs = [] then Inr []
          else
     (case predict X (map (Pair query) docs) of
        Inl e \<Rightarrow> Inl e
      | Inr scores \<Rightarrow> Inr (map fst (rerank docs scores)))))))))))"

text \<open>\<^verbatim>\<open>_run\<close>: \<^verbatim>\<open>except Exception\<close> turns every exception into the empty list.\<close>

definition RAGTool_run :: "rag_externals \<Rightarrow> string \<Rightarrow> pyval list" where
  "RAGTool_run X query = (case rag_body X query of Inl e \<Rightarrow> [] | Inr docs \<Rightarrow> docs)"

section \<open>The specification's side\<close>

text \<open>
  The merge rule in the specification's words: on every field the value of the
  Execute-decision stage wins, then the value of the Analyze stage, then the default.
\<close>

definition spec_merged_field :: "dict \<Rightarrow> dict \<Rightarrow> string \<Rightarrow> pyval option" where
  "spec_merged_field analyze execute field =
     (case dict_get execute (PStr field) of
        Some v \<Rightarrow> Some v
      | None \<Rightarrow>
          (case dict_get analyze (PStr field) of
             Some v \<Rightarrow> Some v
           | None \<Rightarrow> dict_get default_resolution (PStr field)))"

text \<open>The two properties a Resolution is specified to have.\<close>

definition confidence_in_unit_interval :: "dict \<Rightarrow> bool" where
  "confidence_in_unit_interval res =
     (case dict_get res (PStr ''confidence'') of
        Some v \<Rightarrow> (case num_val v of Some (Finite c) \<Rightarrow> 0 \<le> c \<and> c \<le> 1 | _ \<Rightarrow> False)
      | None \<Rightarrow> False)"

definition executed_is_boolean :: "dict \<Rightarrow> bool" where
  "executed_is_boolean res =
     (case dict_get res (PStr ''executed'') of Some (PBool b) \<Rightarrow> True | _ \<Rightarrow> False)"

text \<open>
  A recovered stage output that keeps to the contract of its stage: a mapping whose
  \<^verbatim>\<open>confidence\<close>, when present, is a float between 0 and 1, whose
  \<^verbatim>\<open>executed\<close>, when present, is a boolean, and whose \<^verbatim>\<open>command_id\<close>, when
  a list, is a list of strings.
\<close>

definition is_unit_float :: "pyval \<Rightarrow> bool" where
  "is_unit_float v = (case v of PFloat (Finite c) \<Rightarrow> 0 \<le> c \<and> c \<le> 1 | _ \<Rightarrow> False)"

definition is_boolean :: "pyval \<Rightarrow> bool" where
  "is_boolean v = (case v of PBool b \<Rightarrow> True | _ \<Rightarrow> False)"

definition joinable :: "pyval \<Rightarrow> bool" where
  "joinable v = (case v of PList xs \<Rightarrow> as_strs xs \<noteq> None | _ \<Rightarrow> True)"

definition field_ok :: "(pyval \<Rightarrow> bool) \<Rightarrow> dict \<Rightarrow> string \<Rightarrow> bool" where
  "field_ok P kvs field = (case dict_get kvs (PStr field) of None \<Rightarrow> True | Some v \<Rightarrow> P v)"

definition typed_output :: "pyval \<Rightarrow> bool" where
  "typed_output parsed =
     (case parsed of
        PDict kvs \<Rightarrow>
          distinct (map fst kvs) \<and>
          field_ok is_unit_float kvs ''confidence'' \<and>
          field_ok is_boolean kvs ''executed'' \<and>
          field_ok joinable kvs ''command_id''
      | _ \<Rightarrow> False)"

definition typed_result :: "(string \<Rightarrow> pyval option) \<Rightarrow> crew_result \<Rightarrow> bool" where
  "typed_result loads result =
     (case extract_outputs loads result of
        (parsed_analyzer, parsed_executor) \<Rightarrow>
          typed_output parsed_analyzer \<and> typed_output parsed_executor)"

section \<open>Concrete runs\<close>

text \<open>
  The surroundings of the concrete runs below. The alert is the one of the repository's
  tests. \<open>sample_loads\<close> and \<open>sample_float_of_str\<close> are \<^verbatim>\<open>json.loads\<close> and
  \<^verbatim>\<open>float\<close> on the texts that occur in these runs (and refuse every other text);
  the audit table accepts every item.
\<close>

definition sample_alert :: alert where
  "sample_alert =
     \<lparr>incident_id = None, description = ''DB timeout'', severity = high, metrics = []\<rparr>"

definition sample_loads :: "string \<Rightarrow> pyval option" where
  \<open>sample_loads t =
     (if t = ''{"confidence": "high"}'' then
        Some (PDict [(PStr ''confidence'', PStr ''high'')])
      else if t = ''{"executed": true, "command_id": [1, 2]}'' then
        Some (PDict [(PStr ''executed'', PBool True), (PStr ''command_id'', PList [PInt 1, PInt 2])])
      else if t = ''{"executed": true, "confidence": NaN}'' then
        Some (PDict [(PStr ''executed'', PBool True), (PStr ''confidence'', PFloat NaN)])
      else if t = ''{"confidence": 1.7}'' then
        Some (PDict [(PStr ''confidence'', PFloat (Finite 1.7))])
      else if t = ''{"confidence": 0.9}'' then
        Some (PDict [(PStr ''confidence'', PFloat (Finite 0.9))])
      else if t = ''{"executed": true, "command_id": ["cmd-1", "cmd-2"]}'' then
        Some (PDict [(PStr ''executed'', PBool True),
                     (PStr ''command_id'', PList [PStr ''cmd-1'', PStr ''cmd-2''])])
      else if t = ''{"executed": 1, "confidence": 0.3}'' then
        Some (PDict [(PStr ''executed'', PInt 1), (PStr ''confidence'', PFloat (Finite 0.3))])
      else if t = ''42'' then Some (PInt 42)
      else None)\<close>

definition sample_float_of_str :: "string \<Rightarrow> pyfloat option" where
  "sample_float_of_str t = (if t = ''nan'' then Some NaN else None)"

definition analyzer_says :: "string \<Rightarrow> task_output" where
  "analyzer_says text =
     \<lparr>agent = PStr ''Resolution Generator'', raw = PStr text, output_attr = PNone, task_str = text\<rparr>"

definition executor_says :: "string \<Rightarrow> task_output" where
  "executor_says text =
     \<lparr>agent = PStr ''Fix Executor'', raw = PStr text, output_attr = PNone, task_str = text\<rparr>"

text \<open>A crew whose first call returns the given task outputs.\<close>

definition kickoff_returns :: "task_output list \<Rightarrow> alert \<Rightarrow> nat \<Rightarrow> (exc + crew_result) \<times> nat" where
  "kickoff_returns ts a n = (Inr \<lparr>tasks_output = ts, result_str = ''crew output''\<rparr>, Suc n)"

text \<open>A crew whose every call is refused with a rate-limit error; the state counts the calls.\<close>

definition kickoff_rate_limited :: "alert \<Rightarrow> nat \<Rightarrow> (exc + crew_result) \<times> nat" where
  "kickoff_rate_limited a n = (Inl (Exc RateLimitError ''rate limit exceeded''), Suc n)"

definition sample_externals ::
  "(alert \<Rightarrow> nat \<Rightarrow> (exc + crew_result) \<times> nat) \<Rightarrow> nat externals" where
  "sample_externals crew =
     \<lparr>json_loads = sample_loads, float_of_str = sample_float_of_str,
      uuid4 = ''6f1c2d3e-0000-4000-8000-000000000001'',
      now_isoformat = ''2025-01-01T00:00:00'',
      kickoff = crew, put_item = (\<lambda>item s. (None, s))\<rparr>"

definition initial_world :: "nat world" where
  "initial_world = \<lparr>ext = 0, slept = [], audit_writes = []\<rparr>"

text \<open>
  The surroundings of a retrieval: an embedding of three numbers, four hits, and the
  scores the cross-encoder gives them; the same with a search response that lacks the key
  \<^verbatim>\<open>hits\<close>; and the same with a search client that cannot be built because
  \<^verbatim>\<open>OPENSEARCH_URL\<close> is not set.
\<close>

definition hit_with :: "string \<Rightarrow> pyval" where
  "hit_with content = PDict [(PStr ''_source'', PDict [(PStr ''content'', PStr content)])]"

definition sample_rag :: rag_externals where
  "sample_rag =
     \<lparr>get_opensearch_client = None,
      invoke_model = (\<lambda>q. Inr (PDict [(PStr ''embedding'',
                        PList [PFloat (Finite 0.1), PFloat (Finite 0.2), PFloat (Finite 0.3)])])),
      search = (\<lambda>index body. Inr (PDict [(PStr ''hits'', PDict [(PStr ''hits'',
                  PList [hit_with ''runbook-other'', hit_with ''runbook-db-timeout'',
                         hit_with ''runbook-network'', hit_with ''runbook-disk''])])])),
      predict = (\<lambda>pairs. Inr [0.1, 0.9, 0.3, 0.7])\<rparr>"

definition sample_rag_no_hits_key :: rag_externals where
  "sample_rag_no_hits_key =
     sample_rag\<lparr>search := (\<lambda>index body. Inr (PDict [(PStr ''took'', PInt 3)]))\<rparr>"

definition sample_rag_no_client :: rag_externals where
  "sample_rag_no_client =
     sample_rag\<lparr>get_opensearch_client := Some (Exc RuntimeError ''OPENSEARCH_URL not set in .env'')\<rparr>"

section \<open>Properties of the recovery\<close>

text \<open>
  The span taken between the first \<open>a\<close> and the last \<open>b\<close> after it, for any two
  distinct delimiters.
\<close>

lemma span_decompose:
  fixes a b :: 'a
  assumes ab: "a \<noteq> b"
    and m: "m = rev (dropWhile (\<lambda>c. c \<noteq> b) (rev (dropWhile (\<lambda>c. c \<noteq> a) s)))"
    and mne: "m \<noteq> []"
  shows "\<exists>pre mid post. s = pre @ a # mid @ b # post \<and> a \<notin> set pre \<and> b \<notin> set post \<and>
           m = a # mid @ [b]"
proof -
  define t where "t = dropWhile (\<lambda>c. c \<noteq> a) s"
  define pre where "pre = takeWhile (\<lambda>c. c \<noteq> a) s"
  define post where "post = rev (takeWhile (\<lambda>c. c \<noteq> b) (rev t))"
  define d where "d = dropWhile (\<lambda>c. c \<noteq> b) (rev t)"
  have m': "m = rev d" by (simp add: m d_def t_def)
  have s: "s = pre @ t" by (simp add: pre_def t_def)
  have "t = rev (takeWhile (\<lambda>c. c \<noteq> b) (rev t) @ dropWhile (\<lambda>c. c \<noteq> b) (rev t))"
    by (simp only: takeWhile_dropWhile_id rev_rev_ident)
  then have t: "t = m @ post" by (simp only: rev_append m' post_def d_def)
  have pre_no: "a \<notin> set pre" unfolding pre_def using set_takeWhileD[of a "\<lambda>c. c \<noteq> a" s] by blast
  have post_no: "b \<notin> set post"
    unfolding post_def using set_takeWhileD[of b "\<lambda>c. c \<noteq> b" "rev t"] by auto
  have tne: "t \<noteq> []" using t mne by simp
  have "hd t = a" using hd_dropWhile[of "\<lambda>c. c \<noteq> a" s] tne unfolding t_def by simp
  then have hdm: "hd m = a" using t mne by simp
  have dne: "d \<noteq> []" using m' mne by simp
  have "hd d = b" using hd_dropWhile[of "\<lambda>c. c \<noteq> b" "rev t"] dne unfolding d_def by simp
  then have lastm: "last m = b" using m' dne by (simp add: last_rev)
  obtain m2 where m2: "m = a # m2" using hdm mne by (cases m) auto
  have m2ne: "m2 \<noteq> []" using lastm m2 ab by auto
  then have "last m2 = b" using lastm m2 by simp
  then have mid: "m2 = butlast m2 @ [b]" using m2ne append_butlast_last_id[of m2] by simp
  have "s = pre @ a # butlast m2 @ b # post"
    using s t m2 mid by (metis append_Cons append_assoc append_Nil)
  moreover have "m = a # butlast m2 @ [b]" using m2 mid by simp
  ultimately show ?thesis using pre_no post_no by blast
qed

lemma span_compose:
  fixes a b :: 'a
  assumes pre: "a \<notin> set pre" and post: "b \<notin> set post"
  shows "rev (dropWhile (\<lambda>c. c \<noteq> b) (rev (dropWhile (\<lambda>c. c \<noteq> a) (pre @ a # mid @ b # post))))
           = a # mid @ [b]"
proof -
  have 1: "dropWhile (\<lambda>c. c \<noteq> a) (pre @ a # mid @ b # post) = a # mid @ b # post"
    using pre by (induction pre) auto
  have 2: "dropWhile (\<lambda>c. c \<noteq> b) (rev post @ b # rev mid @ [a]) = b # rev mid @ [a]"
    using post by (induction post rule: rev_induct) auto
  show ?thesis by (simp add: 1 2)
qed

lemma brace_span_Some_iff:
  "brace_span s = Some m \<longleftrightarrow>
     (\<exists>pre mid post. s = pre @ CHR ''{'' # mid @ CHR ''}'' # post \<and>
        CHR ''{'' \<notin> set pre \<and> CHR ''}'' \<notin> set post \<and> m = CHR ''{'' # mid @ [CHR ''}''])"
proof
  assume a: "brace_span s = Some m"
  have ne: "CHR ''{'' \<noteq> CHR ''}''" by simp
  have m: "m = rev (dropWhile (\<lambda>c. c \<noteq> CHR ''}'') (rev (dropWhile (\<lambda>c. c \<noteq> CHR ''{'') s)))"
    and mne: "m \<noteq> []"
    using a by (auto simp: brace_span_def Let_def split: if_splits)
  show "\<exists>pre mid post. s = pre @ CHR ''{'' # mid @ CHR ''}'' # post \<and>
        CHR ''{'' \<notin> set pre \<and> CHR ''}'' \<notin> set post \<and> m = CHR ''{'' # mid @ [CHR ''}'']"
    by (rule span_decompose[OF ne m mne])
next
  assume "\<exists>pre mid post. s = pre @ CHR ''{'' # mid @ CHR ''}'' # post \<and>
        CHR ''{'' \<notin> set pre \<and> CHR ''}'' \<notin> set post \<and> m = CHR ''{'' # mid @ [CHR ''}'']"
  then obtain pre mid post where s: "s = pre @ CHR ''{'' # mid @ CHR ''}'' # post"
    and pre: "CHR ''{'' \<notin> set pre" and post: "CHR ''}'' \<notin> set post"
    and m: "m = CHR ''{'' # mid @ [CHR ''}'']" by blast
  show "brace_span s = Some m"
    unfolding brace_span_def Let_def s m span_compose[OF pre post] by simp
qed

text \<open>
  Claim C4. Structured-output recovery is total and follows a fixed order of fallbacks. An
  empty or absent input gives the empty mapping; a mapping is returned unchanged; a text
  is first handed whole to the strict parser, whose result is returned; when that fails,
  the span from the first opening brace to the last closing brace after it (the greedy
  match, newlines included) is parsed; when this fails too, or there is no such span, the
  result is the empty mapping; any other value gives the empty mapping. On the text
  \<^verbatim>\<open>Sure! Here is the result: {"confidence": 0.9}\<close> the result is what the parser
  makes of \<^verbatim>\<open>{"confidence": 0.9}\<close>. No branch raises: the function returns a
  value on every input.
\<close>

theorem parse_possible_json_recovery:
  fixes loads :: "string \<Rightarrow> pyval option"
  shows \<open>(\<not> truthy val \<longrightarrow> parse_possible_json loads val = PDict []) \<and>
    parse_possible_json loads (PDict kvs) = PDict kvs \<and>
    (s \<noteq> [] \<longrightarrow> loads s = Some v \<longrightarrow> parse_possible_json loads (PStr s) = v) \<and>
    (loads s = None \<longrightarrow> brace_span s = Some m \<longrightarrow> loads m = Some v \<longrightarrow>
       parse_possible_json loads (PStr s) = v) \<and>
    (loads s = None \<longrightarrow> brace_span s = Some m \<longrightarrow> loads m = None \<longrightarrow>
       parse_possible_json loads (PStr s) = PDict []) \<and>
    (loads s = None \<longrightarrow> brace_span s = None \<longrightarrow> parse_possible_json loads (PStr s) = PDict []) \<and>
    parse_possible_json loads PNone = PDict [] \<and>
    parse_possible_json loads (PStr []) = PDict [] \<and>
    parse_possible_json loads (PBool b) = PDict [] \<and>
    parse_possible_json loads (PInt n) = PDict [] \<and>
    parse_possible_json loads (PFloat f) = PDict [] \<and>
    parse_possible_json loads (PDecimal f) = PDict [] \<and>
    parse_possible_json loads (PList xs) = PDict [] \<and>
    (brace_span s = Some m \<longleftrightarrow>
       (\<exists>pre mid post. s = pre @ CHR ''{'' # mid @ CHR ''}'' # post \<and>
          CHR ''{'' \<notin> set pre \<and> CHR ''}'' \<notin> set post \<and> m = CHR ''{'' # mid @ [CHR ''}''])) \<and>
    (loads ''Sure! Here is the result: {"confidence": 0.9}'' = None \<longrightarrow>
     loads ''{"confidence": 0.9}'' = Some (PDict [(PStr ''confidence'', PFloat (Finite 0.9))]) \<longrightarrow>
       parse_possible_json loads (PStr ''Sure! Here is the result: {"confidence": 0.9}'')
         = PDict [(PStr ''confidence'', PFloat (Finite 0.9))])\<close>
proof -
  have ex: \<open>brace_span ''Sure! Here is the result: {"confidence": 0.9}'' = Some ''{"confidence": 0.9}''\<close>
    by (simp add: brace_span_def)
  have ne: "brace_span s = Some m \<Longrightarrow> s \<noteq> []" for s m
    by (auto simp: brace_span_def)
  have 1: "\<not> truthy val \<longrightarrow> parse_possible_json loads val = PDict []"
    by (simp add: parse_possible_json_def)
  have 2: "parse_possible_json loads (PDict kvs) = PDict kvs"
    by (simp add: parse_possible_json_def)
  have 3: "s \<noteq> [] \<longrightarrow> loads s = Some v \<longrightarrow> parse_possible_json loads (PStr s) = v"
    by (simp add: parse_possible_json_def)
  have 4: "loads s = None \<longrightarrow> brace_span s = Some m \<longrightarrow> loads m = Some v \<longrightarrow>
       parse_possible_json loads (PStr s) = v"
    using ne[of s m] by (simp add: parse_possible_json_def)
  have 5: "loads s = None \<longrightarrow> brace_span s = Some m \<longrightarrow> loads m = None \<longrightarrow>
       parse_possible_json loads (PStr s) = PDict []"
    by (simp add: parse_possible_json_def)
  have 6: "loads s = None \<longrightarrow> brace_span s = None \<longrightarrow> parse_possible_json loads (PStr s) = PDict []"
    by (simp add: parse_possible_json_def)
  have 7: "parse_possible_json loads PNone = PDict []"
    "parse_possible_json loads (PStr []) = PDict []"
    "parse_possible_json loads (PBool b) = PDict []"
    "parse_possible_json loads (PInt n) = PDict []"
    "parse_possible_json loads (PFloat f) = PDict []"
    "parse_possible_json loads (PDecimal f) = PDict []"
    "parse_possible_json loads (PList xs) = PDict []"
    by (simp_all add: parse_possible_json_def)
  have 8: \<open>loads ''Sure! Here is the result: {"confidence": 0.9}'' = None \<longrightarrow>
     loads ''{"confidence": 0.9}'' = Some (PDict [(PStr ''confidence'', PFloat (Finite 0.9))]) \<longrightarrow>
       parse_possible_json loads (PStr ''Sure! Here is the result: {"confidence": 0.9}'')
         = PDict [(PStr ''confidence'', PFloat (Finite 0.9))]\<close>
    by (simp add: parse_possible_json_def ex)
  show ?thesis
    using 1 2 3 4 5 6 7 8 brace_span_Some_iff[of s m] by blast
qed

theorem parse_possible_json_recovery_witness:
  \<open>parse_possible_json
     (\<lambda>t. if t = ''{"confidence": 0.9}'' then Some (PDict [(PStr ''confidence'', PFloat (Finite 0.9))])
          else None)
     (PStr ''Sure! Here is the result: {"confidence": 0.9}'')
   = PDict [(PStr ''confidence'', PFloat (Finite 0.9))]
   \<and> \<not> truthy (PStr [])
   \<and> brace_span ''Sure! Here is the result: {"confidence": 0.9}'' = Some ''{"confidence": 0.9}''\<close>
  using parse_possible_json_recovery
    [where val = "PStr []" and loads = \<open>\<lambda>t. if t = ''{"confidence": 0.9}'' then Some (PDict [(PStr ''confidence'', PFloat (Finite 0.9))])
          else None\<close> and s = \<open>''Sure! Here is the result: {"confidence": 0.9}''\<close>
       and m = \<open>''{"confidence": 0.9}''\<close>]
  by (simp add: brace_span_def)

section \<open>Properties of the retry wrapper\<close>

lemma backoff_wait_nonneg: "0 \<le> b \<Longrightarrow> 0 \<le> m \<Longrightarrow> 0 \<le> backoff_wait b m a"
  by (simp add: backoff_wait_def py_min_def)

lemma retry_loop_waits:
  "retry_loop fn b m al n a lx (s, sl) = (r, s', sl') \<Longrightarrow>
     \<exists>k\<le>n. sl' = sl @ map (backoff_wait b m) [a..<a + k]"
proof (induction n arbitrary: a lx s sl)
  case 0
  then show ?case by (auto split: option.splits)
next
  case (Suc n)
  obtain r1 s1 where f: "fn s = (r1, s1)" by (cases "fn s")
  show ?case
  proof (cases r1)
    case (Inr v)
    with Suc.prems f show ?thesis by auto
  next
    case (Inl e)
    show ?thesis
    proof (cases "exc_class e \<in> set al \<and> \<not> backoff_wait b m a < 0")
      case False
      with Suc.prems f Inl show ?thesis by (auto simp: Let_def split: if_splits)
    next
      case True
      with Suc.prems f Inl
      have "retry_loop fn b m al n (Suc a) (Some e) (s1, sl @ [backoff_wait b m a]) = (r, s', sl')"
        by (simp add: Let_def)
      from Suc.IH[OF this] obtain k where k: "k \<le> n"
        and l: "sl' = (sl @ [backoff_wait b m a]) @ map (backoff_wait b m) [Suc a..<Suc a + k]"
        by blast
      have "[a..<a + Suc k] = a # [Suc a..<Suc a + k]"
        by (simp add: upt_rec)
      then have "sl' = sl @ map (backoff_wait b m) [a..<a + Suc k]"
        using l by simp
      then show ?thesis using k by (intro exI[of _ "Suc k"]) simp
    qed
  qed
qed

lemma retry_loop_counted:
  "retry_loop (counted fn) b m al n a lx ((s, c), sl) = (r, (s', c'), sl') \<Longrightarrow> c' \<le> c + n"
proof (induction n arbitrary: a lx s c sl)
  case 0
  then show ?case by (auto split: option.splits)
next
  case (Suc n)
  obtain r1 s1 where f: "fn s = (r1, s1)" by (cases "fn s")
  then have cf: "counted fn (s, c) = (r1, s1, Suc c)" by (simp add: counted_def)
  show ?case
  proof (cases r1)
    case (Inr v)
    with Suc.prems cf show ?thesis by auto
  next
    case (Inl e)
    show ?thesis
    proof (cases "exc_class e \<in> set al \<and> \<not> backoff_wait b m a < 0")
      case False
      with Suc.prems cf Inl show ?thesis by (auto simp: Let_def split: if_splits)
    next
      case True
      with Suc.prems cf Inl
      have "retry_loop (counted fn) b m al n (Suc a) (Some e) ((s1, Suc c), sl @ [backoff_wait b m a])
              = (r, (s', c'), sl')"
        by (simp add: Let_def)
      from Suc.IH[OF this] show ?thesis by simp
    qed
  qed
qed

lemma retry_loop_reject:
  assumes "fn s = (Inl e, s')" and "exc_class e \<notin> set al"
  shows "retry_loop fn b m al (Suc n) a lx (s, sl) = (Inl e, s', sl)"
  using assms by simp

lemma retry_loop_prefix:
  assumes "\<forall>j<k. \<exists>e. fst (fn (state_after fn j s)) = Inl e \<and> exc_class e \<in> set al"
    and "0 \<le> b" and "0 \<le> m"
  shows "\<exists>lx'. retry_loop fn b m al (k + n) a lx (s, sl) =
           retry_loop fn b m al n (a + k) lx' (state_after fn k s, sl @ map (backoff_wait b m) [a..<a + k])"
  using assms(1)
proof (induction k arbitrary: a lx s sl)
  case 0
  then show ?case by auto
next
  case (Suc k)
  from Suc.prems obtain e where e: "fst (fn s) = Inl e" "exc_class e \<in> set al"
    by force
  obtain s1 where f: "fn s = (Inl e, s1)" using e by (cases "fn s") auto
  have nn: "\<not> backoff_wait b m a < 0" using backoff_wait_nonneg[OF assms(2,3), of a] by simp
  have step: "retry_loop fn b m al (Suc k + n) a lx (s, sl) =
     retry_loop fn b m al (k + n) (Suc a) (Some e) (s1, sl @ [backoff_wait b m a])"
    using f e nn by (simp add: Let_def)
  have "\<forall>j<k. \<exists>e. fst (fn (state_after fn j s1)) = Inl e \<and> exc_class e \<in> set al"
  proof (intro allI impI)
    fix j assume "j < k"
    then have "Suc j < Suc k" by simp
    with Suc.prems have "\<exists>e. fst (fn (state_after fn (Suc j) s)) = Inl e \<and> exc_class e \<in> set al"
      by blast
    then show "\<exists>e. fst (fn (state_after fn j s1)) = Inl e \<and> exc_class e \<in> set al"
      using f by simp
  qed
  from Suc.IH[OF this, of "Suc a" "Some e" "sl @ [backoff_wait b m a]"]
  obtain lx' where
    "retry_loop fn b m al (k + n) (Suc a) (Some e) (s1, sl @ [backoff_wait b m a]) =
     retry_loop fn b m al n (Suc a + k) lx'
       (state_after fn k s1, (sl @ [backoff_wait b m a]) @ map (backoff_wait b m) [Suc a..<Suc a + k])"
    by blast
  moreover have "[a..<a + Suc k] = a # [Suc a..<Suc a + k]" by (simp add: upt_rec)
  ultimately show ?case using step f by (intro exI[of _ lx']) simp
qed

lemma state_after_counted: "state_after (counted fn) j (s, c) = (state_after fn j s, c + j)"
proof (induction j arbitrary: s c)
  case 0
  show ?case by simp
next
  case (Suc j)
  obtain r s1 where f: "fn s = (r, s1)" by (cases "fn s")
  then have "counted fn (s, c) = (r, s1, Suc c)" by (simp add: counted_def)
  then show ?case using Suc.IH[of s1 "Suc c"] f by simp
qed

lemma fst_counted: "fst (counted fn (s, c)) = fst (fn s)"
  by (simp add: counted_def split: prod.splits)

lemma retry_auth_general:
  assumes k: "k < nat retries"
    and pre: "\<forall>j<k. \<exists>e. fst (fn (state_after fn j s)) = Inl e \<and> exc_class e \<in> set allowed"
    and f: "fn (state_after fn k s) = (Inl e, s')"
    and rej: "exc_class e \<notin> set allowed"
    and nn: "0 \<le> base_interval" "0 \<le> max_interval"
  shows "exponential_backoff_retry fn retries base_interval max_interval allowed (s, sl) =
           (Inl e, s', sl @ map (backoff_wait base_interval max_interval) [1..<1 + k])"
proof -
  obtain n where n: "nat retries = k + Suc n"
    using k by (metis less_iff_Suc_add add_Suc_right)
  from retry_loop_prefix[OF pre nn, of "Suc n" 1 None sl]
  obtain lx where "retry_loop fn base_interval max_interval allowed (k + Suc n) 1 None (s, sl) =
      retry_loop fn base_interval max_interval allowed (Suc n) (1 + k) lx
        (state_after fn k s, sl @ map (backoff_wait base_interval max_interval) [1..<1 + k])"
    by blast
  also have "\<dots> = (Inl e, s', sl @ map (backoff_wait base_interval max_interval) [1..<1 + k])"
    by (rule retry_loop_reject[where fn = fn and s = "state_after fn k s" and e = e and s' = s', OF f rej])
  finally show ?thesis by (simp add: exponential_backoff_retry_def n)
qed

text \<open>
  Claim C6. When the wrapped call raises an authentication error at attempt \<open>k + 1\<close>
  (the \<open>k\<close> attempts before it having failed with allowed, retried errors), the wrapper
  returns that very error, in the state the failing call left, having slept only the
  waits of the \<open>k\<close> earlier attempts: the call counter stands at \<open>k + 1\<close>, so no
  further attempt was made.
\<close>

theorem authentication_error_not_retried:
  assumes "k < nat retries"
    and "\<forall>j<k. \<exists>e'. fst (fn (state_after fn j s)) = Inl e' \<and> exc_class e' \<in> set allowed"
    and "fn (state_after fn k s) = (Inl e, s')"
    and "exc_class e = AuthenticationError"
    and "AuthenticationError \<notin> set allowed"
    and "0 \<le> base_interval" and "0 \<le> max_interval"
  shows "exponential_backoff_retry fn retries base_interval max_interval allowed (s, sl) =
           (Inl e, s', sl @ map (backoff_wait base_interval max_interval) [1..<1 + k]) \<and>
         exponential_backoff_retry (counted fn) retries base_interval max_interval allowed ((s, c), sl) =
           (Inl e, (s', c + k + 1), sl @ map (backoff_wait base_interval max_interval) [1..<1 + k])"
proof -
  have rej: "exc_class e \<notin> set allowed" using assms(4,5) by simp
  have a: "exponential_backoff_retry fn retries base_interval max_interval allowed (s, sl) =
           (Inl e, s', sl @ map (backoff_wait base_interval max_interval) [1..<1 + k])"
    by (rule retry_auth_general[OF assms(1,2,3) rej assms(6,7)])
  have pre: "\<forall>j<k. \<exists>e'. fst (counted fn (state_after (counted fn) j (s, c))) = Inl e' \<and>
               exc_class e' \<in> set allowed"
    using assms(2) by (simp add: state_after_counted fst_counted)
  have "counted fn (state_after fn k s, c + k) = (Inl e, (s', c + k + 1))"
    using assms(3) by (simp add: counted_def)
  then have f: "counted fn (state_after (counted fn) k (s, c)) = (Inl e, (s', c + k + 1))"
    by (simp only: state_after_counted)
  have b: "exponential_backoff_retry (counted fn) retries base_interval max_interval allowed ((s, c), sl) =
           (Inl e, (s', c + k + 1), sl @ map (backoff_wait base_interval max_interval) [1..<1 + k])"
    by (rule retry_auth_general[OF assms(1) pre f rej assms(6,7)])
  show ?thesis using a b by simp
qed

theorem authentication_error_not_retried_witness:
  "retry_default
     (\<lambda>n::nat. if n = 0 then (Inl (Exc RateLimitError ''slow down'') :: exc + unit, Suc n)
               else (Inl (Exc AuthenticationError ''bad key''), Suc n))
     (0, []) = (Inl (Exc AuthenticationError ''bad key''), 2, [1])"
  using authentication_error_not_retried
    [where k = 1 and retries = 3 and s = "0::nat" and s' = "2::nat" and sl = "[]"
       and e = "Exc AuthenticationError ''bad key''"
       and allowed = "[RateLimitError, APIError]" and base_interval = 1 and max_interval = 10
       and fn = "\<lambda>n::nat. if n = 0 then (Inl (Exc RateLimitError ''slow down'') :: exc + unit, Suc n)
               else (Inl (Exc AuthenticationError ''bad key''), Suc n)"]
  by (simp add: retry_default_def default_retries_def default_base_interval_def
      default_max_interval_def default_allowed_exceptions_def backoff_wait_def py_min_def)

text \<open>
  Claim C5. With the default parameters the wait computed at attempt \<open>n\<close> (counted
  from one) is \<open>min 10.0 (1.0 * 2 ^ (n - 1))\<close>; the waits slept by a run are these
  values for the attempts \<open>1, \<dots>, k\<close> with \<open>k \<le> 3\<close>; at most three attempts are made;
  and when all three attempts fail with a rate-limit or service error, the error of the
  third attempt is the one raised to the caller, after waits of 1, 2 and 4 seconds.
\<close>

theorem retry_default_backoff:
  fixes fn :: "'s \<Rightarrow> (exc + 'a) \<times> 's"
  shows "backoff_wait default_base_interval default_max_interval n = min 10.0 (1.0 * 2 ^ (n - 1)) \<and>
    (retry_default fn (s, sl) = (r, s', sl') \<longrightarrow>
       (\<exists>k\<le>3. sl' = sl @ map (\<lambda>n. min 10.0 (1.0 * 2 ^ (n - 1))) [1..<1 + k])) \<and>
    (retry_default (counted fn) ((s, c), sl) = (rc, (sd, cd), sld) \<longrightarrow> cd \<le> c + 3) \<and>
    (fn s = (Inl ea, sa) \<and> fn sa = (Inl eb, sb) \<and> fn sb = (Inl ec, sc) \<and>
     exc_class ea \<in> {RateLimitError, APIError} \<and> exc_class eb \<in> {RateLimitError, APIError} \<and>
     exc_class ec \<in> {RateLimitError, APIError} \<longrightarrow>
       retry_default fn (s, sl) = (Inl ec, sc, sl @ [1.0, 2.0, 4.0]) \<and>
       retry_default (counted fn) ((s, c), sl) = (Inl ec, (sc, c + 3), sl @ [1.0, 2.0, 4.0]))"
proof -
  have w: "backoff_wait default_base_interval default_max_interval n = min 10.0 (1.0 * 2 ^ (n - 1))" for n
    by (simp add: backoff_wait_def py_min_def default_base_interval_def default_max_interval_def min_def)
  have w': "backoff_wait default_base_interval default_max_interval = (\<lambda>n. min 10.0 (1.0 * 2 ^ (n - 1)))"
    using w by (intro ext)
  have 2: "retry_default fn (s, sl) = (r, s', sl') \<longrightarrow>
       (\<exists>k\<le>3. sl' = sl @ map (\<lambda>n. min 10.0 (1.0 * 2 ^ (n - 1))) [1..<1 + k])"
  proof
    assume "retry_default fn (s, sl) = (r, s', sl')"
    then have "retry_loop fn default_base_interval default_max_interval default_allowed_exceptions
        3 1 None (s, sl) = (r, s', sl')"
      by (simp add: retry_default_def exponential_backoff_retry_def default_retries_def)
    from retry_loop_waits[OF this] show "\<exists>k\<le>3. sl' = sl @ map (\<lambda>n. min 10.0 (1.0 * 2 ^ (n - 1))) [1..<1 + k]"
      unfolding w' .
  qed
  have 3: "retry_default (counted fn) ((s, c), sl) = (rc, (sd, cd), sld) \<longrightarrow> cd \<le> c + 3"
  proof
    assume "retry_default (counted fn) ((s, c), sl) = (rc, (sd, cd), sld)"
    then have "retry_loop (counted fn) default_base_interval default_max_interval
        default_allowed_exceptions 3 1 None ((s, c), sl) = (rc, (sd, cd), sld)"
      by (simp add: retry_default_def exponential_backoff_retry_def default_retries_def)
    from retry_loop_counted[OF this] show "cd \<le> c + 3" .
  qed
  have three: "(3::nat) = Suc (Suc (Suc 0))" by simp
  have 4: "retry_default g (t, sl) = (Inl ec, tc, sl @ [1.0, 2.0, 4.0])"
    if "g t = (Inl ea, ta)" "g ta = (Inl eb, tb)" "g tb = (Inl ec, tc)"
      "exc_class ea \<in> {RateLimitError, APIError}" "exc_class eb \<in> {RateLimitError, APIError}"
      "exc_class ec \<in> {RateLimitError, APIError}"
    for g :: "'t \<Rightarrow> (exc + 'a) \<times> 't" and t ta tb tc
    using that
    by (simp add: retry_default_def exponential_backoff_retry_def default_retries_def three
        default_allowed_exceptions_def default_base_interval_def default_max_interval_def
        backoff_wait_def py_min_def Let_def)
  have 5: "fn s = (Inl ea, sa) \<and> fn sa = (Inl eb, sb) \<and> fn sb = (Inl ec, sc) \<and>
     exc_class ea \<in> {RateLimitError, APIError} \<and> exc_class eb \<in> {RateLimitError, APIError} \<and>
     exc_class ec \<in> {RateLimitError, APIError} \<longrightarrow>
       retry_default fn (s, sl) = (Inl ec, sc, sl @ [1.0, 2.0, 4.0]) \<and>
       retry_default (counted fn) ((s, c), sl) = (Inl ec, (sc, c + 3), sl @ [1.0, 2.0, 4.0])"
  proof (intro impI, elim conjE)
    assume h: "fn s = (Inl ea, sa)" "fn sa = (Inl eb, sb)" "fn sb = (Inl ec, sc)"
      "exc_class ea \<in> {RateLimitError, APIError}" "exc_class eb \<in> {RateLimitError, APIError}"
      "exc_class ec \<in> {RateLimitError, APIError}"
    have k1: "counted fn (s, c) = (Inl ea, (sa, c + 1))"
      and k2: "counted fn (sa, c + 1) = (Inl eb, (sb, c + 2))"
      and k3: "counted fn (sb, c + 2) = (Inl ec, (sc, c + 3))"
      using h(1,2,3) by (simp_all add: counted_def)
    show "retry_default fn (s, sl) = (Inl ec, sc, sl @ [1.0, 2.0, 4.0]) \<and>
       retry_default (counted fn) ((s, c), sl) = (Inl ec, (sc, c + 3), sl @ [1.0, 2.0, 4.0])"
      using 4[OF h] 4[OF k1 k2 k3 h(4,5,6)] by simp
  qed
  show ?thesis using w 2 3 5 by blast
qed

theorem retry_default_backoff_witness:
  "retry_default
     (\<lambda>n::nat. (Inl (Exc RateLimitError (replicate n CHR ''x'')) :: exc + unit, Suc n))
     (0, []) = (Inl (Exc RateLimitError ''xx''), 3, [1, 2, 4])"
  using retry_default_backoff
    [where fn = "\<lambda>n::nat. (Inl (Exc RateLimitError (replicate n CHR ''x'')) :: exc + unit, Suc n)"
       and s = "0::nat" and sa = "1::nat" and sb = "2::nat" and sc = "3::nat" and sl = "[]"
       and ea = "Exc RateLimitError []" and eb = "Exc RateLimitError ''x''"
       and ec = "Exc RateLimitError ''xx''"]
  by (simp add: numeral_2_eq_2)

section \<open>Properties of the orchestrator\<close>

lemma process_alert_retries_exhausted:
  assumes "kickoff X a (ext w) = (Inl ea, sa)" and "kickoff X a sa = (Inl eb, sb)"
    and "kickoff X a sb = (Inl ec, sc)"
    and "exc_class ea \<in> {RateLimitError, APIError}" and "exc_class eb \<in> {RateLimitError, APIError}"
    and "exc_class ec \<in> {RateLimitError, APIError}"
  shows "process_alert X a w =
     (Inr \<lparr>status = ''pending_human'',
           resp_incident_id = (case incident_id a of
                   Some i \<Rightarrow> if i \<noteq> [] then i else uuid4 X
                 | None \<Rightarrow> uuid4 X),
           resolution = unavailable_resolution\<rparr>,
      w\<lparr>ext := sc, slept := slept w @ [1, 2, 4]\<rparr>)"
proof -
  have three: "(3::nat) = Suc (Suc (Suc 0))" by simp
  have "retry_default (kickoff X a) (ext w, slept w) = (Inl ec, sc, slept w @ [1, 2, 4])"
    using assms
    by (simp add: retry_default_def exponential_backoff_retry_def default_retries_def three
        default_allowed_exceptions_def default_base_interval_def default_max_interval_def
        backoff_wait_def py_min_def Let_def)
  then show ?thesis using assms(6) by (simp add: process_alert_def Let_def)
qed

text \<open>
  Claim C1. A crew that is refused with a rate-limit error at each of the three attempts:
  \<^verbatim>\<open>process_alert\<close> raises nothing and returns the terminal Resolution with
  \<^verbatim>\<open>issue = "LLM unavailable"\<close>, confidence 0.0, \<^verbatim>\<open>executed = False\<close> and
  status \<^verbatim>\<open>pending_human\<close>, after waits of 1, 2 and 4 seconds. The claim's one audit
  write does not happen: the handler returns before \<^verbatim>\<open>put_item\<close> is reached, and
  the log of audit writes is empty at the end of the run.
\<close>

theorem no_audit_write_when_retries_exhausted:
  "process_alert (sample_externals kickoff_rate_limited) sample_alert initial_world =
     (Inr \<lparr>status = ''pending_human'',
           resp_incident_id = ''6f1c2d3e-0000-4000-8000-000000000001'',
           resolution = unavailable_resolution\<rparr>,
      \<lparr>ext = 3, slept = [1, 2, 4], audit_writes = []\<rparr>) \<and>
   dict_get unavailable_resolution (PStr ''issue'') = Some (PStr ''LLM unavailable'') \<and>
   dict_get unavailable_resolution (PStr ''confidence'') = Some (PFloat (Finite 0.0)) \<and>
   dict_get unavailable_resolution (PStr ''executed'') = Some (PBool False) \<and>
   length (audit_writes (snd (process_alert (sample_externals kickoff_rate_limited)
                                 sample_alert initial_world))) = 0"
proof -
  have run: "process_alert (sample_externals kickoff_rate_limited) sample_alert initial_world =
     (Inr \<lparr>status = ''pending_human'',
           resp_incident_id = ''6f1c2d3e-0000-4000-8000-000000000001'',
           resolution = unavailable_resolution\<rparr>,
      \<lparr>ext = 3, slept = [1, 2, 4], audit_writes = []\<rparr>)"
    using process_alert_retries_exhausted
      [where X = "sample_externals kickoff_rate_limited" and a = sample_alert and w = initial_world
         and ea = "Exc RateLimitError ''rate limit exceeded''"
         and eb = "Exc RateLimitError ''rate limit exceeded''"
         and ec = "Exc RateLimitError ''rate limit exceeded''"
         and sa = 1 and sb = 2 and sc = 3]
    by (simp add: sample_externals_def kickoff_rate_limited_def initial_world_def sample_alert_def)
  have f: "dict_get unavailable_resolution (PStr ''issue'') = Some (PStr ''LLM unavailable'')"
    "dict_get unavailable_resolution (PStr ''confidence'') = Some (PFloat (Finite 0.0))"
    "dict_get unavailable_resolution (PStr ''executed'') = Some (PBool False)"
    by (simp_all add: unavailable_resolution_def key_eq_def)
  show ?thesis using f by (simp add: run)
qed

lemma key_eq_PStr [simp]: "key_eq (PStr a) (PStr b) = (a = b)"
  by (simp add: key_eq_def)

lemma key_eq_PStr_right: "key_eq k (PStr s) = (k = PStr s)"
  by (cases k) (auto simp: key_eq_def)

lemma key_eq_PStr_left: "key_eq (PStr s) k = (k = PStr s)"
  by (cases k) (auto simp: key_eq_def)

lemma final_decision_rule:
  assumes "py_float fos (dict_get_default res (PStr ''confidence'') (PFloat (Finite 0.7))) = Inr c"
  shows "(dict_get res (PStr ''executed'') = Some (PBool True) \<longrightarrow>
            final_decision fos res =
              Inr (''resolved'', dict_setitem res (PStr ''confidence'') (PFloat (py_max c (Finite 0.95)))) \<and>
            (c \<noteq> NaN \<longrightarrow> float_le (Finite 0.95) (py_max c (Finite 0.95)))) \<and>
         (dict_get res (PStr ''executed'') \<noteq> Some (PBool True) \<longrightarrow> float_lt c (Finite 0.8) \<longrightarrow>
            final_decision fos res = Inr (''pending_human'', res)) \<and>
         (dict_get res (PStr ''executed'') \<noteq> Some (PBool True) \<longrightarrow> \<not> float_lt c (Finite 0.8) \<longrightarrow>
            final_decision fos res = Inr (''resolved'', res))"
proof -
  have "c \<noteq> NaN \<Longrightarrow> float_le (Finite 0.95) (py_max c (Finite 0.95))"
    by (cases c) (auto simp: float_le_def py_max_def)
  then show ?thesis using assms by (simp add: final_decision_def)
qed

text \<open>
  Claim C10. The executed branch is taken only when the merged \<^verbatim>\<open>executed\<close> field
  is the boolean \<^verbatim>\<open>True\<close> itself. With any other value there (the string
  \<^verbatim>\<open>"true"\<close>, the integer 1, or no value at all) the outcome depends on the
  confidence alone: the status is \<^verbatim>\<open>pending_human\<close> below 0.8 and
  \<^verbatim>\<open>resolved\<close> otherwise, and the resolution is returned as it was merged, its
  confidence not raised.
\<close>

theorem executed_branch_only_on_boolean_true:
  assumes "dict_get res (PStr ''executed'') \<noteq> Some (PBool True)"
  shows "final_decision fos res =
     (case py_float fos (dict_get_default res (PStr ''confidence'') (PFloat (Finite 0.7))) of
        Inl e \<Rightarrow> Inl e
      | Inr c \<Rightarrow> Inr (if float_lt c (Finite 0.8) then ''pending_human'' else ''resolved'', res))"
  using assms by (simp add: final_decision_def split: sum.splits)

theorem executed_branch_only_on_boolean_true_witness:
  "final_decision sample_float_of_str
     [(PStr ''confidence'', PFloat (Finite 0.9)), (PStr ''executed'', PStr ''true'')] =
     Inr (''resolved'', [(PStr ''confidence'', PFloat (Finite 0.9)), (PStr ''executed'', PStr ''true'')]) \<and>
   final_decision sample_float_of_str
     [(PStr ''confidence'', PFloat (Finite 0.5)), (PStr ''executed'', PInt 1)] =
     Inr (''pending_human'', [(PStr ''confidence'', PFloat (Finite 0.5)), (PStr ''executed'', PInt 1)])"
  using executed_branch_only_on_boolean_true
    [where res = "[(PStr ''confidence'', PFloat (Finite 0.9)), (PStr ''executed'', PStr ''true'')]"
       and fos = sample_float_of_str]
    executed_branch_only_on_boolean_true
    [where res = "[(PStr ''confidence'', PFloat (Finite 0.5)), (PStr ''executed'', PInt 1)]"
       and fos = sample_float_of_str]
  by (simp add: dict_get_default_def)

text \<open>
  Claim C2, at the input where the code departs from it. An Execute-decision output
  \<^verbatim>\<open>{"executed": true, "confidence": NaN}\<close> (a text \<^verbatim>\<open>json.loads\<close>
  accepts) merges into a resolution with \<^verbatim>\<open>executed = True\<close> and a NaN
  confidence. The executed branch fires and the status is \<^verbatim>\<open>resolved\<close>, but
  \<^verbatim>\<open>max(confidence, 0.95)\<close> keeps its first argument, every comparison with NaN
  being false: the confidence field stays NaN and is not at least 0.95. For every other
  float the rule of the claim holds, see \<open>final_decision_rule\<close>.
\<close>

theorem nan_confidence_escapes_the_clamp:
  "merge_resolution (PDict [])
     (PDict [(PStr ''executed'', PBool True), (PStr ''confidence'', PFloat NaN)]) =
     Inr [(PStr ''issue'', PStr ''Unknown''),
          (PStr ''root_cause'', PStr ''Unknown''),
          (PStr ''impact'', PStr ''Unknown''),
          (PStr ''resolution'', PStr ''Manual investigation required''),
          (PStr ''confidence'', PFloat NaN),
          (PStr ''executed'', PBool True)] \<and>
   final_decision fos
     [(PStr ''issue'', PStr ''Unknown''),
      (PStr ''root_cause'', PStr ''Unknown''),
      (PStr ''impact'', PStr ''Unknown''),
      (PStr ''resolution'', PStr ''Manual investigation required''),
      (PStr ''confidence'', PFloat NaN),
      (PStr ''executed'', PBool True)] =
     Inr (''resolved'',
          [(PStr ''issue'', PStr ''Unknown''),
           (PStr ''root_cause'', PStr ''Unknown''),
           (PStr ''impact'', PStr ''Unknown''),
           (PStr ''resolution'', PStr ''Manual investigation required''),
           (PStr ''confidence'', PFloat NaN),
           (PStr ''executed'', PBool True)]) \<and>
   \<not> float_le (Finite 0.95) NaN"
  by (simp add: merge_resolution_def overlay_def default_resolution_def flatten_command_id_def
      final_decision_def dict_get_default_def py_max_def float_le_def)

text \<open>
  Claim C3, at three inputs where the code departs from it. The alert is valid and the
  crew returns at its first call, yet \<^verbatim>\<open>process_alert\<close> raises: a
  \<^verbatim>\<open>ValueError\<close> from \<^verbatim>\<open>float\<close> when the Analyze stage reports the
  confidence \<^verbatim>\<open>"high"\<close>; a \<^verbatim>\<open>TypeError\<close> from \<^verbatim>\<open>",".join\<close> when the
  Execute-decision stage reports the command ids \<^verbatim>\<open>[1, 2]\<close>; a
  \<^verbatim>\<open>TypeError\<close> from \<^verbatim>\<open>dict.update\<close> when the Analyze stage answers
  \<^verbatim>\<open>42\<close>, which the strict parse recovers as a number. In each run nothing is
  written to the audit table.
\<close>

theorem ill_typed_stage_output_raises:
  \<open>valid_alert sample_alert \<and>
   process_alert (sample_externals (kickoff_returns [analyzer_says ''{"confidence": "high"}'']))
     sample_alert initial_world =
     (Inl (Exc ValueError ''could not convert string to float''),
      \<lparr>ext = 1, slept = [], audit_writes = []\<rparr>) \<and>
   process_alert
     (sample_externals (kickoff_returns [executor_says ''{"executed": true, "command_id": [1, 2]}'']))
     sample_alert initial_world =
     (Inl (Exc TypeError ''sequence item: expected str instance''),
      \<lparr>ext = 1, slept = [], audit_writes = []\<rparr>) \<and>
   process_alert (sample_externals (kickoff_returns [analyzer_says ''42'']))
     sample_alert initial_world =
     (Inl (Exc TypeError ''object is not iterable''),
      \<lparr>ext = 1, slept = [], audit_writes = []\<rparr>)\<close>
proof -
  have three: "(3::nat) = Suc (Suc (Suc 0))" by simp
  have v: "valid_alert sample_alert"
    by (simp add: valid_alert_def sample_alert_def description_not_blank_def py_isspace_def)
  have r: "retry_default (kickoff_returns ts sample_alert) (0, []) =
      (Inr \<lparr>tasks_output = ts, result_str = ''crew output''\<rparr>, 1, [])" for ts
    by (simp add: retry_default_def exponential_backoff_retry_def default_retries_def three
        kickoff_returns_def)
  have e1: \<open>extract_outputs sample_loads
       \<lparr>tasks_output = [analyzer_says ''{"confidence": "high"}''], result_str = ''crew output''\<rparr> =
       (PDict [(PStr ''confidence'', PStr ''high'')], PDict [])\<close>
    by (simp add: extract_outputs_def analyzer_says_def py_or_def parse_possible_json_def
        sample_loads_def Let_def)
  have e2: \<open>extract_outputs sample_loads
       \<lparr>tasks_output = [executor_says ''{"executed": true, "command_id": [1, 2]}''],
        result_str = ''crew output''\<rparr> =
       (PDict [], PDict [(PStr ''executed'', PBool True), (PStr ''command_id'', PList [PInt 1, PInt 2])])\<close>
    by (simp add: extract_outputs_def executor_says_def py_or_def parse_possible_json_def
        sample_loads_def Let_def)
  have e3: \<open>extract_outputs sample_loads
       \<lparr>tasks_output = [analyzer_says ''42''], result_str = ''crew output''\<rparr> =
       (PInt 42, PDict [])\<close>
    by (simp add: extract_outputs_def analyzer_says_def py_or_def parse_possible_json_def
        sample_loads_def Let_def)
  have m1: "merge_resolution (PDict [(PStr ''confidence'', PStr ''high'')]) (PDict []) =
      Inr [(PStr ''issue'', PStr ''Unknown''),
          (PStr ''root_cause'', PStr ''Unknown''),
          (PStr ''impact'', PStr ''Unknown''),
          (PStr ''resolution'', PStr ''Manual investigation required''),
          (PStr ''confidence'', PStr ''high''),
          (PStr ''executed'', PBool False)]"
    by (simp add: merge_resolution_def overlay_def default_resolution_def flatten_command_id_def)
  have d1: "final_decision sample_float_of_str
         [(PStr ''issue'', PStr ''Unknown''),
          (PStr ''root_cause'', PStr ''Unknown''),
          (PStr ''impact'', PStr ''Unknown''),
          (PStr ''resolution'', PStr ''Manual investigation required''),
          (PStr ''confidence'', PStr ''high''),
          (PStr ''executed'', PBool False)] = Inl (Exc ValueError ''could not convert string to float'')"
    by (simp add: final_decision_def dict_get_default_def sample_float_of_str_def)
  have m2: "merge_resolution (PDict [])
       (PDict [(PStr ''executed'', PBool True), (PStr ''command_id'', PList [PInt 1, PInt 2])]) =
       Inl (Exc TypeError ''sequence item: expected str instance'')"
    by (simp add: merge_resolution_def overlay_def default_resolution_def flatten_command_id_def
        str_join_def)
  have m3: "merge_resolution (PInt 42) (PDict []) = Inl (Exc TypeError ''object is not iterable'')"
    by (simp add: merge_resolution_def overlay_def)
  have p1: \<open>process_alert (sample_externals (kickoff_returns [analyzer_says ''{"confidence": "high"}'']))
     sample_alert initial_world =
     (Inl (Exc ValueError ''could not convert string to float''),
      \<lparr>ext = 1, slept = [], audit_writes = []\<rparr>)\<close>
    by (simp add: process_alert_def sample_externals_def initial_world_def r e1 m1 d1)
  have p2: \<open>process_alert
     (sample_externals (kickoff_returns [executor_says ''{"executed": true, "command_id": [1, 2]}'']))
     sample_alert initial_world =
     (Inl (Exc TypeError ''sequence item: expected str instance''),
      \<lparr>ext = 1, slept = [], audit_writes = []\<rparr>)\<close>
    by (simp add: process_alert_def sample_externals_def initial_world_def r e2 m2)
  have p3: \<open>process_alert (sample_externals (kickoff_returns [analyzer_says ''42'']))
     sample_alert initial_world =
     (Inl (Exc TypeError ''object is not iterable''),
      \<lparr>ext = 1, slept = [], audit_writes = []\<rparr>)\<close>
    by (simp add: process_alert_def sample_externals_def initial_world_def r e3 m3)
  show ?thesis using v p1 p2 p3 by simp
qed

lemma dict_get_str_map_of: "dict_get kvs (PStr s) = map_of kvs (PStr s)"
  by (induction kvs) (auto simp: key_eq_PStr_right)

lemma dict_get_setitem_str:
  "dict_get (dict_setitem d k v) (PStr s) = (if k = PStr s then Some v else dict_get d (PStr s))"
proof (induction d)
  case Nil
  show ?case by (simp add: key_eq_PStr_right)
next
  case (Cons p d)
  obtain k' v' where p: "p = (k', v')" by (cases p)
  show ?case
  proof (cases "key_eq k' k")
    case True
    then have "(k' = PStr s) = (k = PStr s)"
      using key_eq_PStr_left[of s k] key_eq_PStr_right[of k' s] by auto
    then show ?thesis using True p by (simp add: key_eq_PStr_right)
  next
    case False
    then show ?thesis using p Cons.IH by (auto simp: key_eq_PStr_right)
  qed
qed

lemma dict_get_foldl_str:
  "distinct (map fst kvs) \<Longrightarrow>
   dict_get (foldl (\<lambda>d' (k, v). dict_setitem d' k v) d kvs) (PStr s) =
     (case dict_get kvs (PStr s) of Some v \<Rightarrow> Some v | None \<Rightarrow> dict_get d (PStr s))"
proof (induction kvs arbitrary: d)
  case Nil
  show ?case by simp
next
  case (Cons p kvs)
  obtain k v where p: "p = (k, v)" by (cases p)
  have d: "distinct (map fst kvs)" and nk: "k \<notin> fst ` set kvs" using Cons.prems p by auto
  have none: "k = PStr s \<Longrightarrow> dict_get kvs (PStr s) = None"
    using nk by (simp add: dict_get_str_map_of map_of_eq_None_iff)
  show ?case
    using Cons.IH[OF d, of "dict_setitem d k v"] none
    by (simp add: p dict_get_setitem_str key_eq_PStr_right split: option.splits)
qed

lemma overlay_PDict:
  "overlay d (PDict kvs) = Inr (foldl (\<lambda>d' (k, v). dict_setitem d' k v) d kvs)"
  by (cases kvs) (simp_all add: overlay_def)

lemma overlaid_fields:
  assumes "distinct (map fst analyze)" and "distinct (map fst execute)"
  shows "\<exists>res. overlay default_resolution (PDict analyze) = Inr res \<and>
           (\<exists>res'. overlay res (PDict execute) = Inr res' \<and>
              merge_resolution (PDict analyze) (PDict execute) = flatten_command_id res' \<and>
              (\<forall>f. dict_get res' (PStr f) = spec_merged_field analyze execute f))"
  using assms
  by (simp add: overlay_PDict merge_resolution_def dict_get_foldl_str spec_merged_field_def
      split: option.splits)

lemma flatten_not_list:
  "(\<forall>xs. dict_get res (PStr ''command_id'') \<noteq> Some (PList xs)) \<Longrightarrow> flatten_command_id res = Inr res"
  by (auto simp: flatten_command_id_def split: option.splits pyval.splits)

lemma flatten_str_list:
  "dict_get res (PStr ''command_id'') = Some (PList xs) \<Longrightarrow> as_strs xs = Some ss \<Longrightarrow>
     flatten_command_id res = Inr (dict_setitem res (PStr ''command_id'') (PStr (intercalate '','' ss)))"
  by (simp add: flatten_command_id_def str_join_def)

lemma flatten_other_list:
  "dict_get res (PStr ''command_id'') = Some (PList xs) \<Longrightarrow> as_strs xs = None \<Longrightarrow>
     flatten_command_id res = Inl (Exc TypeError ''sequence item: expected str instance'')"
  by (simp add: flatten_command_id_def str_join_def)

text \<open>
  The merge rule on well-typed stage outputs. With no stage output the merged Resolution
  is the defaults. With the mappings recovered from the Analyze and the Execute-decision
  stage, every field of the merged Resolution holds the Execute-decision value if that
  stage gave one, else the Analyze value if that stage gave one, else the default; and a
  \<^verbatim>\<open>command_id\<close> that merges to a list of strings is replaced by the strings
  joined with commas, the other fields staying as merged.
\<close>

lemma merge_order_rule:
  assumes "distinct (map fst analyze)" and "distinct (map fst execute)"
  shows "merge_resolution (PDict []) (PDict []) =
           Inr [(PStr ''issue'', PStr ''Unknown''),
                (PStr ''root_cause'', PStr ''Unknown''),
                (PStr ''impact'', PStr ''Unknown''),
                (PStr ''resolution'', PStr ''Manual investigation required''),
                (PStr ''confidence'', PFloat (Finite 0.7)),
                (PStr ''executed'', PBool False)] \<and>
         ((\<forall>xs. spec_merged_field analyze execute ''command_id'' \<noteq> Some (PList xs)) \<longrightarrow>
            (\<exists>res. merge_resolution (PDict analyze) (PDict execute) = Inr res \<and>
               (\<forall>f. dict_get res (PStr f) = spec_merged_field analyze execute f))) \<and>
         (spec_merged_field analyze execute ''command_id'' = Some (PList xs) \<longrightarrow>
          as_strs xs = Some ss \<longrightarrow>
            (\<exists>res. merge_resolution (PDict analyze) (PDict execute) = Inr res \<and>
               dict_get res (PStr ''command_id'') = Some (PStr (intercalate '','' ss)) \<and>
               (\<forall>f. f \<noteq> ''command_id'' \<longrightarrow>
                  dict_get res (PStr f) = spec_merged_field analyze execute f)))"
proof -
  have a: "merge_resolution (PDict []) (PDict []) =
           Inr [(PStr ''issue'', PStr ''Unknown''),
                (PStr ''root_cause'', PStr ''Unknown''),
                (PStr ''impact'', PStr ''Unknown''),
                (PStr ''resolution'', PStr ''Manual investigation required''),
                (PStr ''confidence'', PFloat (Finite 0.7)),
                (PStr ''executed'', PBool False)]"
    by (simp add: merge_resolution_def overlay_def default_resolution_def flatten_command_id_def)
  from overlaid_fields[OF assms] obtain res' where
    m: "merge_resolution (PDict analyze) (PDict execute) = flatten_command_id res'"
    and f: "\<And>f. dict_get res' (PStr f) = spec_merged_field analyze execute f"
    by blast
  have b: "(\<forall>xs. spec_merged_field analyze execute ''command_id'' \<noteq> Some (PList xs)) \<longrightarrow>
            (\<exists>res. merge_resolution (PDict analyze) (PDict execute) = Inr res \<and>
               (\<forall>f. dict_get res (PStr f) = spec_merged_field analyze execute f))"
  proof
    assume "\<forall>xs. spec_merged_field analyze execute ''command_id'' \<noteq> Some (PList xs)"
    then have "flatten_command_id res' = Inr res'"
      using flatten_not_list[of res'] f by simp
    then show "\<exists>res. merge_resolution (PDict analyze) (PDict execute) = Inr res \<and>
               (\<forall>f. dict_get res (PStr f) = spec_merged_field analyze execute f)"
      using m f by simp
  qed
  have c: "spec_merged_field analyze execute ''command_id'' = Some (PList xs) \<longrightarrow>
          as_strs xs = Some ss \<longrightarrow>
            (\<exists>res. merge_resolution (PDict analyze) (PDict execute) = Inr res \<and>
               dict_get res (PStr ''command_id'') = Some (PStr (intercalate '','' ss)) \<and>
               (\<forall>f. f \<noteq> ''command_id'' \<longrightarrow>
                  dict_get res (PStr f) = spec_merged_field analyze execute f))"
  proof (intro impI)
    assume l: "spec_merged_field analyze execute ''command_id'' = Some (PList xs)"
      and ss: "as_strs xs = Some ss"
    have "flatten_command_id res' =
        Inr (dict_setitem res' (PStr ''command_id'') (PStr (intercalate '','' ss)))"
      using flatten_str_list[of res' xs ss] l ss f by simp
    then show "\<exists>res. merge_resolution (PDict analyze) (PDict execute) = Inr res \<and>
               dict_get res (PStr ''command_id'') = Some (PStr (intercalate '','' ss)) \<and>
               (\<forall>f. f \<noteq> ''command_id'' \<longrightarrow>
                  dict_get res (PStr f) = spec_merged_field analyze execute f)"
      using m f by (auto simp: dict_get_setitem_str)
  qed
  show ?thesis using a b c by blast
qed

lemma merge_order_rule_example:
  "distinct (map fst [(PStr ''issue'', PStr ''Database timeout''), (PStr ''confidence'', PFloat (Finite 0.9))]) \<and>
   distinct (map fst [(PStr ''executed'', PBool True), (PStr ''confidence'', PFloat (Finite 0.6)),
                      (PStr ''command_id'', PList [PStr ''cmd-1'', PStr ''cmd-2''])]) \<and>
   merge_resolution
     (PDict [(PStr ''issue'', PStr ''Database timeout''), (PStr ''confidence'', PFloat (Finite 0.9))])
     (PDict [(PStr ''executed'', PBool True), (PStr ''confidence'', PFloat (Finite 0.6)),
             (PStr ''command_id'', PList [PStr ''cmd-1'', PStr ''cmd-2''])]) =
     Inr [(PStr ''issue'', PStr ''Database timeout''),
          (PStr ''root_cause'', PStr ''Unknown''),
          (PStr ''impact'', PStr ''Unknown''),
          (PStr ''resolution'', PStr ''Manual investigation required''),
          (PStr ''confidence'', PFloat (Finite 0.6)),
          (PStr ''executed'', PBool True),
          (PStr ''command_id'', PStr ''cmd-1,cmd-2'')]"
  using merge_order_rule
    [where analyze = "[(PStr ''issue'', PStr ''Database timeout''), (PStr ''confidence'', PFloat (Finite 0.9))]"
       and execute = "[(PStr ''executed'', PBool True), (PStr ''confidence'', PFloat (Finite 0.6)),
                      (PStr ''command_id'', PList [PStr ''cmd-1'', PStr ''cmd-2''])]"
       and xs = "[PStr ''cmd-1'', PStr ''cmd-2'']" and ss = "[''cmd-1'', ''cmd-2'']"]
  by (simp add: merge_resolution_def overlay_def default_resolution_def flatten_command_id_def
      str_join_def)

text \<open>
  Claim C7, at the input where the code departs from it. The defaults are the starting
  point and the Execute-decision output is overlaid on them as the claim says, but a
  merged \<^verbatim>\<open>command_id\<close> that is the list \<^verbatim>\<open>[1, 2]\<close> is not flattened to a
  comma-joined string: \<^verbatim>\<open>",".join\<close> accepts strings only and raises a
  \<^verbatim>\<open>TypeError\<close>, so no merged Resolution is produced. The same happens when a
  single item of the list is not a string. On lists of strings the rule of the claim
  holds, see \<open>merge_order_rule\<close>.
\<close>

theorem command_id_list_of_numbers_raises:
  "overlay default_resolution (PDict []) = Inr default_resolution \<and>
   overlay default_resolution
     (PDict [(PStr ''executed'', PBool True), (PStr ''command_id'', PList [PInt 1, PInt 2])]) =
     Inr [(PStr ''issue'', PStr ''Unknown''),
          (PStr ''root_cause'', PStr ''Unknown''),
          (PStr ''impact'', PStr ''Unknown''),
          (PStr ''resolution'', PStr ''Manual investigation required''),
          (PStr ''confidence'', PFloat (Finite 0.7)),
          (PStr ''executed'', PBool True),
          (PStr ''command_id'', PList [PInt 1, PInt 2])] \<and>
   flatten_command_id
         [(PStr ''issue'', PStr ''Unknown''),
          (PStr ''root_cause'', PStr ''Unknown''),
          (PStr ''impact'', PStr ''Unknown''),
          (PStr ''resolution'', PStr ''Manual investigation required''),
          (PStr ''confidence'', PFloat (Finite 0.7)),
          (PStr ''executed'', PBool True),
          (PStr ''command_id'', PList [PInt 1, PInt 2])] =
     Inl (Exc TypeError ''sequence item: expected str instance'') \<and>
   merge_resolution (PDict [])
     (PDict [(PStr ''executed'', PBool True), (PStr ''command_id'', PList [PInt 1, PInt 2])]) =
     Inl (Exc TypeError ''sequence item: expected str instance'') \<and>
   merge_resolution (PDict [])
     (PDict [(PStr ''executed'', PBool True), (PStr ''command_id'', PList [PStr ''cmd-1'', PInt 2])]) =
     Inl (Exc TypeError ''sequence item: expected str instance'')"
  by (simp add: merge_resolution_def overlay_def default_resolution_def flatten_command_id_def
      str_join_def)

lemma retry_loop_Inr:
  "retry_loop fn b m al n a lx (s, sl) = (Inr v, s', sl') \<Longrightarrow> \<exists>t. fn t = (Inr v, s')"
proof (induction n arbitrary: a lx s sl)
  case 0
  then show ?case by (auto split: option.splits)
next
  case (Suc n)
  obtain r s1 where f: "fn s = (r, s1)" by (cases "fn s")
  show ?case
  proof (cases r)
    case (Inr v')
    with Suc.prems f show ?thesis by auto
  next
    case (Inl e)
    show ?thesis
    proof (cases "exc_class e \<in> set al \<and> \<not> backoff_wait b m a < 0")
      case False
      with Suc.prems f Inl show ?thesis by (auto simp: Let_def split: if_splits)
    next
      case True
      with Suc.prems f Inl
      have "retry_loop fn b m al n (Suc a) (Some e) (s1, sl @ [backoff_wait b m a]) = (Inr v, s', sl')"
        by (simp add: Let_def)
      from Suc.IH[OF this] show ?thesis .
    qed
  qed
qed

lemma retry_loop_Inl:
  "retry_loop fn b m al n a lx (s, sl) = (Inl e, s', sl') \<Longrightarrow> 0 \<le> b \<Longrightarrow> 0 \<le> m \<Longrightarrow>
   (lx = None \<longrightarrow> 0 < n) \<Longrightarrow> (\<exists>t. fst (fn t) = Inl e) \<or> lx = Some e"
proof (induction n arbitrary: a lx s sl)
  case 0
  then show ?case by (auto split: option.splits)
next
  case (Suc n)
  obtain r s1 where f: "fn s = (r, s1)" by (cases "fn s")
  have nn: "\<not> backoff_wait b m a < 0" using backoff_wait_nonneg[OF Suc.prems(2,3), of a] by simp
  show ?case
  proof (cases r)
    case (Inr v')
    with Suc.prems f show ?thesis by auto
  next
    case (Inl e1)
    have fe: "fst (fn s) = Inl e1" using f Inl by simp
    show ?thesis
    proof (cases "exc_class e1 \<in> set al")
      case False
      with Suc.prems(1) f Inl have "e = e1" by simp
      then show ?thesis using fe by blast
    next
      case True
      with Suc.prems(1) f Inl nn
      have "retry_loop fn b m al n (Suc a) (Some e1) (s1, sl @ [backoff_wait b m a]) = (Inl e, s', sl')"
        by (simp add: Let_def)
      from Suc.IH[OF this Suc.prems(2,3)] have "(\<exists>t. fst (fn t) = Inl e) \<or> Some e1 = Some e"
        by simp
      then show ?thesis using fe by auto
    qed
  qed
qed

lemma retry_default_Inr:
  "retry_default fn (s, sl) = (Inr v, s', sl') \<Longrightarrow> \<exists>t. fn t = (Inr v, s')"
  unfolding retry_default_def exponential_backoff_retry_def by (rule retry_loop_Inr)

lemma retry_default_Inl:
  assumes "retry_default fn (s, sl) = (Inl e, s', sl')"
  shows "\<exists>t. fst (fn t) = Inl e"
proof -
  have "retry_loop fn default_base_interval default_max_interval default_allowed_exceptions
          (nat default_retries) 1 None (s, sl) = (Inl e, s', sl')"
    using assms by (simp add: retry_default_def exponential_backoff_retry_def)
  from retry_loop_Inl[OF this] show ?thesis
    by (simp add: default_base_interval_def default_max_interval_def default_retries_def)
qed

lemma merge_order_fields:
  assumes "distinct (map fst ka)" and "distinct (map fst ke)"
    and "\<forall>xs. spec_merged_field ka ke ''command_id'' \<noteq> Some (PList xs)"
  shows "\<exists>res. merge_resolution (PDict ka) (PDict ke) = Inr res \<and>
           (\<forall>f. dict_get res (PStr f) = spec_merged_field ka ke f)"
proof -
  from overlaid_fields[OF assms(1,2)] obtain res' where
    m: "merge_resolution (PDict ka) (PDict ke) = flatten_command_id res'"
    and f: "\<And>f. dict_get res' (PStr f) = spec_merged_field ka ke f"
    by blast
  have "flatten_command_id res' = Inr res'"
    using flatten_not_list[of res'] f assms(3) by simp
  then show ?thesis using m f by simp
qed

lemma merge_order_flatten:
  assumes "distinct (map fst ka)" and "distinct (map fst ke)"
    and "spec_merged_field ka ke ''command_id'' = Some (PList xs)" and "as_strs xs = Some ss"
  shows "\<exists>res. merge_resolution (PDict ka) (PDict ke) = Inr res \<and>
           dict_get res (PStr ''command_id'') = Some (PStr (intercalate '','' ss)) \<and>
           (\<forall>f. f \<noteq> ''command_id'' \<longrightarrow> dict_get res (PStr f) = spec_merged_field ka ke f)"
proof -
  from overlaid_fields[OF assms(1,2)] obtain res' where
    m: "merge_resolution (PDict ka) (PDict ke) = flatten_command_id res'"
    and f: "\<And>f. dict_get res' (PStr f) = spec_merged_field ka ke f"
    by blast
  have "flatten_command_id res' =
      Inr (dict_setitem res' (PStr ''command_id'') (PStr (intercalate '','' ss)))"
    using flatten_str_list[of res' xs ss] assms(3,4) f by simp
  then show ?thesis using m f by (auto simp: dict_get_setitem_str)
qed

lemma is_unit_floatD: "is_unit_float v \<Longrightarrow> \<exists>c. v = PFloat (Finite c) \<and> 0 \<le> c \<and> c \<le> 1"
proof (cases v)
  case (PFloat f)
  assume "is_unit_float v"
  then show ?thesis using PFloat by (cases f) (simp_all add: is_unit_float_def)
qed (simp_all add: is_unit_float_def)

lemma is_booleanD: "is_boolean v \<Longrightarrow> \<exists>b. v = PBool b"
  by (cases v) (simp_all add: is_boolean_def)

lemma joinableD: "joinable (PList xs) \<Longrightarrow> \<exists>ss. as_strs xs = Some ss"
  by (simp add: joinable_def)

text \<open>A property that holds of the default and of every given field holds of the merged one.\<close>

lemma spec_merged_field_cases:
  assumes "field_ok P ka f" and "field_ok P ke f"
    and "\<And>v. dict_get default_resolution (PStr f) = Some v \<Longrightarrow> P v"
    and "spec_merged_field ka ke f = Some v"
  shows "P v"
proof (cases "dict_get ke (PStr f)")
  case (Some u)
  then show ?thesis using assms(2,4) by (simp add: spec_merged_field_def field_ok_def)
next
  case None
  show ?thesis
  proof (cases "dict_get ka (PStr f)")
    case (Some u)
    then show ?thesis using None assms(1,4) by (simp add: spec_merged_field_def field_ok_def)
  next
    case n: None
    then show ?thesis using None assms(3,4) by (simp add: spec_merged_field_def)
  qed
qed

lemma spec_merged_field_default:
  "dict_get default_resolution (PStr f) = Some d \<Longrightarrow> \<exists>v. spec_merged_field ka ke f = Some v"
  by (simp add: spec_merged_field_def split: option.splits)

lemma default_confidence:
  "dict_get default_resolution (PStr ''confidence'') = Some (PFloat (Finite 0.7))"
  by (simp add: default_resolution_def)

lemma default_executed:
  "dict_get default_resolution (PStr ''executed'') = Some (PBool False)"
  by (simp add: default_resolution_def)

lemma default_command_id:
  "dict_get default_resolution (PStr ''command_id'') = None"
  by (simp add: default_resolution_def)

lemma max_in_unit: "0 \<le> c \<Longrightarrow> c \<le> 1 \<Longrightarrow>
  \<exists>c'. py_max (Finite c) (Finite 0.95) = Finite c' \<and> 0 \<le> c' \<and> c' \<le> 1"
proof (cases "c < 0.95")
  case True
  assume "0 \<le> c" "c \<le> 1"
  have "py_max (Finite c) (Finite 0.95) = Finite 0.95" using True by (simp add: py_max_def)
  moreover have "(0::real) \<le> 0.95" "(0.95::real) \<le> 1" by simp_all
  ultimately show ?thesis by blast
next
  case False
  assume "0 \<le> c" "c \<le> 1"
  moreover have "py_max (Finite c) (Finite 0.95) = Finite c" using False by (simp add: py_max_def)
  ultimately show ?thesis by blast
qed

lemma typed_outputs_merge:
  assumes "typed_output parsed_analyzer" and "typed_output parsed_executor"
  shows "\<exists>res c b. merge_resolution parsed_analyzer parsed_executor = Inr res \<and>
          dict_get res (PStr ''confidence'') = Some (PFloat (Finite c)) \<and> 0 \<le> c \<and> c \<le> 1 \<and>
          dict_get res (PStr ''executed'') = Some (PBool b)"
proof -
  obtain ka where pa: "parsed_analyzer = PDict ka" using assms(1)
    by (cases parsed_analyzer) (simp_all add: typed_output_def)
  obtain ke where pe: "parsed_executor = PDict ke" using assms(2)
    by (cases parsed_executor) (simp_all add: typed_output_def)
  have ta: "distinct (map fst ka)" "field_ok is_unit_float ka ''confidence''"
    "field_ok is_boolean ka ''executed''" "field_ok joinable ka ''command_id''"
    using assms(1) pa by (simp_all add: typed_output_def)
  have te: "distinct (map fst ke)" "field_ok is_unit_float ke ''confidence''"
    "field_ok is_boolean ke ''executed''" "field_ok joinable ke ''command_id''"
    using assms(2) pe by (simp_all add: typed_output_def)
  obtain vc where vc: "spec_merged_field ka ke ''confidence'' = Some vc"
    using spec_merged_field_default[OF default_confidence] by blast
  have "is_unit_float vc"
    by (rule spec_merged_field_cases[OF ta(2) te(2) _ vc])
       (simp add: default_confidence is_unit_float_def)
  then obtain c where c: "vc = PFloat (Finite c)" "0 \<le> c" "c \<le> 1"
    using is_unit_floatD by blast
  obtain vb where vb: "spec_merged_field ka ke ''executed'' = Some vb"
    using spec_merged_field_default[OF default_executed] by blast
  have "is_boolean vb"
    by (rule spec_merged_field_cases[OF ta(3) te(3) _ vb])
       (simp add: default_executed is_boolean_def)
  then obtain b where b: "vb = PBool b" using is_booleanD by blast
  have ne1: "''confidence'' \<noteq> ''command_id''" and ne2: "''executed'' \<noteq> ''command_id''"
    by simp_all
  have "\<exists>res. merge_resolution (PDict ka) (PDict ke) = Inr res \<and>
          dict_get res (PStr ''confidence'') = Some (PFloat (Finite c)) \<and>
          dict_get res (PStr ''executed'') = Some (PBool b)"
  proof (cases "\<exists>xs. spec_merged_field ka ke ''command_id'' = Some (PList xs)")
    case False
    then have "\<forall>xs. spec_merged_field ka ke ''command_id'' \<noteq> Some (PList xs)" by blast
    from merge_order_fields[OF ta(1) te(1) this] show ?thesis using vc vb c(1) b by auto
  next
    case True
    then obtain xs where xs: "spec_merged_field ka ke ''command_id'' = Some (PList xs)" by blast
    have "joinable (PList xs)"
      by (rule spec_merged_field_cases[OF ta(4) te(4) _ xs]) (simp add: default_command_id)
    then obtain ss where ss: "as_strs xs = Some ss" using joinableD by blast
    from merge_order_flatten[OF ta(1) te(1) xs ss] obtain res where
      r: "merge_resolution (PDict ka) (PDict ke) = Inr res"
      and o: "\<And>f. f \<noteq> ''command_id'' \<Longrightarrow> dict_get res (PStr f) = spec_merged_field ka ke f"
      by blast
    show ?thesis using r o[OF ne1] o[OF ne2] vc vb c(1) b by simp
  qed
  then show ?thesis using pa pe c(2,3) by blast
qed

lemma typed_outputs_decide:
  assumes "typed_output parsed_analyzer" and "typed_output parsed_executor"
  shows "\<exists>res st res'. merge_resolution parsed_analyzer parsed_executor = Inr res \<and>
           final_decision fos res = Inr (st, res') \<and>
           confidence_in_unit_interval res' \<and> executed_is_boolean res'"
proof -
  from typed_outputs_merge[OF assms] obtain res c b where
    res: "merge_resolution parsed_analyzer parsed_executor = Inr res"
    "dict_get res (PStr ''confidence'') = Some (PFloat (Finite c))"
    "dict_get res (PStr ''executed'') = Some (PBool b)"
    and c: "0 \<le> c" "c \<le> 1" by blast
  obtain c' where c': "py_max (Finite c) (Finite 0.95) = Finite c'" "0 \<le> c'" "c' \<le> 1"
    using max_in_unit[OF c] by blast
  have pf: "py_float fos (dict_get_default res (PStr ''confidence'') (PFloat (Finite 0.7))) = Inr (Finite c)"
    using res(2) by (simp add: dict_get_default_def)
  show ?thesis
  proof (cases b)
    case True
    then have "final_decision fos res =
        Inr (''resolved'', dict_setitem res (PStr ''confidence'') (PFloat (Finite c')))"
      using final_decision_rule[OF pf] res(3) c'(1) by simp
    moreover have "confidence_in_unit_interval (dict_setitem res (PStr ''confidence'') (PFloat (Finite c')))"
      using c' by (simp add: confidence_in_unit_interval_def dict_get_setitem_str)
    moreover have "executed_is_boolean (dict_setitem res (PStr ''confidence'') (PFloat (Finite c')))"
      using res(3) by (simp add: executed_is_boolean_def dict_get_setitem_str)
    ultimately show ?thesis using res(1) by blast
  next
    case False
    then have "\<exists>st. final_decision fos res = Inr (st, res)"
      using final_decision_rule[OF pf] res(3) by (cases "float_lt (Finite c) (Finite 0.8)") auto
    moreover have "confidence_in_unit_interval res"
      using res(2) c by (simp add: confidence_in_unit_interval_def)
    moreover have "executed_is_boolean res"
      using res(3) by (simp add: executed_is_boolean_def)
    ultimately show ?thesis using res(1) by blast
  qed
qed

lemma unavailable_typed:
  "confidence_in_unit_interval unavailable_resolution \<and> executed_is_boolean unavailable_resolution"
  by (simp add: confidence_in_unit_interval_def executed_is_boolean_def unavailable_resolution_def)

text \<open>
  Claim C9, as amended. For every valid alert: when each result the crew can return
  carries recovered Analyze and Execute-decision outputs that are mappings whose
  \<^verbatim>\<open>confidence\<close>, if present, is a float between 0 and 1, whose
  \<^verbatim>\<open>executed\<close>, if present, is a boolean, and whose \<^verbatim>\<open>command_id\<close>, if a
  list, holds strings, then a Resolution returned by \<^verbatim>\<open>process_alert\<close> has a
  confidence in the closed interval from 0 to 1 and a boolean \<^verbatim>\<open>executed\<close>; and
  when \<^verbatim>\<open>process_alert\<close> raises instead, the exception is one the crew raised
  (not a rate-limit or service error) or one the audit table raised.
\<close>

theorem typed_outputs_give_typed_resolution:
  assumes "valid_alert a"
    and "\<forall>s r s'. kickoff X a s = (Inr r, s') \<longrightarrow> typed_result (json_loads X) r"
  shows "case process_alert X a w of
           (Inr resp, w') \<Rightarrow>
             confidence_in_unit_interval (resolution resp) \<and> executed_is_boolean (resolution resp)
         | (Inl e, w') \<Rightarrow>
             (\<exists>s. fst (kickoff X a s) = Inl e \<and> exc_class e \<notin> {RateLimitError, APIError}) \<or>
             (\<exists>item s. fst (put_item X item s) = Some e)"
proof -
  obtain r0 s1 sl where rd: "retry_default (kickoff X a) (ext w, slept w) = (r0, s1, sl)"
    by (cases "retry_default (kickoff X a) (ext w, slept w)")
  show ?thesis
  proof (cases r0)
    case (Inl e)
    from retry_default_Inl[OF rd[unfolded Inl]] have k: "\<exists>s. fst (kickoff X a s) = Inl e" .
    show ?thesis
    proof (cases "exc_class e \<in> {RateLimitError, APIError}")
      case True
      then show ?thesis using rd Inl unavailable_typed
        by (simp add: process_alert_def Let_def)
    next
      case False
      then show ?thesis using rd Inl k
        by (simp add: process_alert_def Let_def)
    qed
  next
    case (Inr result)
    from retry_default_Inr[OF rd[unfolded Inr]] obtain t where "kickoff X a t = (Inr result, s1)"
      by blast
    with assms(2) have tr: "typed_result (json_loads X) result" by blast
    obtain pa pe where ex: "extract_outputs (json_loads X) result = (pa, pe)"
      by (cases "extract_outputs (json_loads X) result")
    have "typed_output pa" "typed_output pe" using tr ex by (simp_all add: typed_result_def)
    from typed_outputs_decide[OF this, of "float_of_str X"] obtain res st res' where
      m: "merge_resolution pa pe = Inr res" and d: "final_decision (float_of_str X) res = Inr (st, res')"
      and ok: "confidence_in_unit_interval res'" "executed_is_boolean res'"
      by blast
    obtain pr s2 where p: "put_item X (audit_item
         (case incident_id a of Some i \<Rightarrow> if i \<noteq> [] then i else uuid4 X | None \<Rightarrow> uuid4 X)
         (now_isoformat X) res' (result_str result) st) s1 = (pr, s2)"
      by (cases "put_item X (audit_item
         (case incident_id a of Some i \<Rightarrow> if i \<noteq> [] then i else uuid4 X | None \<Rightarrow> uuid4 X)
         (now_isoformat X) res' (result_str result) st) s1")
    show ?thesis
    proof (cases pr)
      case None
      then show ?thesis using rd Inr ex m d ok p
        by (simp add: process_alert_def Let_def)
    next
      case (Some e)
      have "\<exists>item s. fst (put_item X item s) = Some e"
        using p Some by (metis fst_conv)
      then show ?thesis using rd Inr ex m d p Some
        by (simp add: process_alert_def Let_def)
    qed
  qed
qed

lemma sample_retry:
  "retry_default (kickoff_returns ts sample_alert) (0, []) =
      (Inr \<lparr>tasks_output = ts, result_str = ''crew output''\<rparr>, 1, [])"
proof -
  have three: "(3::nat) = Suc (Suc (Suc 0))" by simp
  show ?thesis
    by (simp add: retry_default_def exponential_backoff_retry_def default_retries_def three
        kickoff_returns_def)
qed

lemma sample_incident_id: "incident_id sample_alert = None"
  by (simp add: sample_alert_def)

lemma sample_valid: "valid_alert sample_alert"
  by (simp add: valid_alert_def sample_alert_def description_not_blank_def py_isspace_def)

theorem typed_outputs_give_typed_resolution_witness:
  \<open>valid_alert sample_alert \<and>
   typed_result sample_loads
     \<lparr>tasks_output = [analyzer_says ''{"confidence": 0.9}''], result_str = ''crew output''\<rparr> \<and>
   fst (process_alert (sample_externals (kickoff_returns [analyzer_says ''{"confidence": 0.9}'']))
          sample_alert initial_world) =
     Inr \<lparr>status = ''resolved'', resp_incident_id = ''6f1c2d3e-0000-4000-8000-000000000001'',
          resolution =
            [(PStr ''issue'', PStr ''Unknown''),
             (PStr ''root_cause'', PStr ''Unknown''),
             (PStr ''impact'', PStr ''Unknown''),
             (PStr ''resolution'', PStr ''Manual investigation required''),
             (PStr ''confidence'', PFloat (Finite 0.9)),
             (PStr ''executed'', PBool False)]\<rparr> \<and>
   confidence_in_unit_interval
            [(PStr ''issue'', PStr ''Unknown''),
             (PStr ''root_cause'', PStr ''Unknown''),
             (PStr ''impact'', PStr ''Unknown''),
             (PStr ''resolution'', PStr ''Manual investigation required''),
             (PStr ''confidence'', PFloat (Finite 0.9)),
             (PStr ''executed'', PBool False)] \<and>
   executed_is_boolean
            [(PStr ''issue'', PStr ''Unknown''),
             (PStr ''root_cause'', PStr ''Unknown''),
             (PStr ''impact'', PStr ''Unknown''),
             (PStr ''resolution'', PStr ''Manual investigation required''),
             (PStr ''confidence'', PFloat (Finite 0.9)),
             (PStr ''executed'', PBool False)]\<close>
proof -
  have e: \<open>extract_outputs sample_loads
       \<lparr>tasks_output = [analyzer_says ''{"confidence": 0.9}''], result_str = ''crew output''\<rparr> =
       (PDict [(PStr ''confidence'', PFloat (Finite 0.9))], PDict [])\<close>
    by (simp add: extract_outputs_def analyzer_says_def py_or_def parse_possible_json_def
        sample_loads_def Let_def)
  have t: \<open>typed_result sample_loads
     \<lparr>tasks_output = [analyzer_says ''{"confidence": 0.9}''], result_str = ''crew output''\<rparr>\<close>
    by (simp add: typed_result_def e typed_output_def field_ok_def is_unit_float_def)
  have h: \<open>\<forall>s r s'. kickoff (sample_externals (kickoff_returns [analyzer_says ''{"confidence": 0.9}'']))
                     sample_alert s = (Inr r, s') \<longrightarrow>
            typed_result (json_loads (sample_externals (kickoff_returns [analyzer_says ''{"confidence": 0.9}'']))) r\<close>
    using t by (auto simp: sample_externals_def kickoff_returns_def)
  have m: "merge_resolution (PDict [(PStr ''confidence'', PFloat (Finite 0.9))]) (PDict []) =
      Inr [(PStr ''issue'', PStr ''Unknown''),
             (PStr ''root_cause'', PStr ''Unknown''),
             (PStr ''impact'', PStr ''Unknown''),
             (PStr ''resolution'', PStr ''Manual investigation required''),
             (PStr ''confidence'', PFloat (Finite 0.9)),
             (PStr ''executed'', PBool False)]"
    by (simp add: merge_resolution_def overlay_def default_resolution_def flatten_command_id_def)
  have d: "final_decision sample_float_of_str
            [(PStr ''issue'', PStr ''Unknown''),
             (PStr ''root_cause'', PStr ''Unknown''),
             (PStr ''impact'', PStr ''Unknown''),
             (PStr ''resolution'', PStr ''Manual investigation required''),
             (PStr ''confidence'', PFloat (Finite 0.9)),
             (PStr ''executed'', PBool False)] =
       Inr (''resolved'',
            [(PStr ''issue'', PStr ''Unknown''),
             (PStr ''root_cause'', PStr ''Unknown''),
             (PStr ''impact'', PStr ''Unknown''),
             (PStr ''resolution'', PStr ''Manual investigation required''),
             (PStr ''confidence'', PFloat (Finite 0.9)),
             (PStr ''executed'', PBool False)])"
    by (simp add: final_decision_def dict_get_default_def)
  have p: \<open>fst (process_alert (sample_externals (kickoff_returns [analyzer_says ''{"confidence": 0.9}'']))
          sample_alert initial_world) =
     Inr \<lparr>status = ''resolved'', resp_incident_id = ''6f1c2d3e-0000-4000-8000-000000000001'',
          resolution =
            [(PStr ''issue'', PStr ''Unknown''),
             (PStr ''root_cause'', PStr ''Unknown''),
             (PStr ''impact'', PStr ''Unknown''),
             (PStr ''resolution'', PStr ''Manual investigation required''),
             (PStr ''confidence'', PFloat (Finite 0.9)),
             (PStr ''executed'', PBool False)]\<rparr>\<close>
    by (simp add: process_alert_def sample_externals_def initial_world_def sample_retry e m d
        sample_incident_id Let_def)
  from typed_outputs_give_typed_resolution[OF sample_valid h, of initial_world]
  show ?thesis using p t sample_valid
    by (cases \<open>process_alert (sample_externals (kickoff_returns [analyzer_says ''{"confidence": 0.9}'']))
          sample_alert initial_world\<close>) auto
qed

text \<open>
  Claim C9 as stated fails: the values of the stages are merged as they come. An Analyze
  output \<^verbatim>\<open>{"confidence": 1.7}\<close> is returned with the confidence 1.7, and an
  Execute-decision output \<^verbatim>\<open>{"executed": 1, "confidence": 0.3}\<close> is returned
  with \<^verbatim>\<open>executed\<close> the integer 1.
\<close>

theorem resolution_outside_its_types:
  \<open>valid_alert sample_alert \<and>
   fst (process_alert (sample_externals (kickoff_returns [analyzer_says ''{"confidence": 1.7}'']))
          sample_alert initial_world) =
     Inr \<lparr>status = ''resolved'', resp_incident_id = ''6f1c2d3e-0000-4000-8000-000000000001'',
          resolution =
            [(PStr ''issue'', PStr ''Unknown''),
             (PStr ''root_cause'', PStr ''Unknown''),
             (PStr ''impact'', PStr ''Unknown''),
             (PStr ''resolution'', PStr ''Manual investigation required''),
             (PStr ''confidence'', PFloat (Finite 1.7)),
             (PStr ''executed'', PBool False)]\<rparr> \<and>
   \<not> confidence_in_unit_interval
            [(PStr ''issue'', PStr ''Unknown''),
             (PStr ''root_cause'', PStr ''Unknown''),
             (PStr ''impact'', PStr ''Unknown''),
             (PStr ''resolution'', PStr ''Manual investigation required''),
             (PStr ''confidence'', PFloat (Finite 1.7)),
             (PStr ''executed'', PBool False)] \<and>
   fst (process_alert
          (sample_externals (kickoff_returns [executor_says ''{"executed": 1, "confidence": 0.3}'']))
          sample_alert initial_world) =
     Inr \<lparr>status = ''pending_human'', resp_incident_id = ''6f1c2d3e-0000-4000-8000-000000000001'',
          resolution =
            [(PStr ''issue'', PStr ''Unknown''),
             (PStr ''root_cause'', PStr ''Unknown''),
             (PStr ''impact'', PStr ''Unknown''),
             (PStr ''resolution'', PStr ''Manual investigation required''),
             (PStr ''confidence'', PFloat (Finite 0.3)),
             (PStr ''executed'', PInt 1)]\<rparr> \<and>
   \<not> executed_is_boolean
            [(PStr ''issue'', PStr ''Unknown''),
             (PStr ''root_cause'', PStr ''Unknown''),
             (PStr ''impact'', PStr ''Unknown''),
             (PStr ''resolution'', PStr ''Manual investigation required''),
             (PStr ''confidence'', PFloat (Finite 0.3)),
             (PStr ''executed'', PInt 1)]\<close>
proof -
  have e1: \<open>extract_outputs sample_loads
       \<lparr>tasks_output = [analyzer_says ''{"confidence": 1.7}''], result_str = ''crew output''\<rparr> =
       (PDict [(PStr ''confidence'', PFloat (Finite 1.7))], PDict [])\<close>
    by (simp add: extract_outputs_def analyzer_says_def py_or_def parse_possible_json_def
        sample_loads_def Let_def)
  have e2: \<open>extract_outputs sample_loads
       \<lparr>tasks_output = [executor_says ''{"executed": 1, "confidence": 0.3}''], result_str = ''crew output''\<rparr> =
       (PDict [], PDict [(PStr ''executed'', PInt 1), (PStr ''confidence'', PFloat (Finite 0.3))])\<close>
    by (simp add: extract_outputs_def executor_says_def py_or_def parse_possible_json_def
        sample_loads_def Let_def)
  have m1: "merge_resolution (PDict [(PStr ''confidence'', PFloat (Finite 1.7))]) (PDict []) =
      Inr [(PStr ''issue'', PStr ''Unknown''),
             (PStr ''root_cause'', PStr ''Unknown''),
             (PStr ''impact'', PStr ''Unknown''),
             (PStr ''resolution'', PStr ''Manual investigation required''),
             (PStr ''confidence'', PFloat (Finite 1.7)),
             (PStr ''executed'', PBool False)]"
    by (simp add: merge_resolution_def overlay_def default_resolution_def flatten_command_id_def)
  have m2: "merge_resolution (PDict [])
        (PDict [(PStr ''executed'', PInt 1), (PStr ''confidence'', PFloat (Finite 0.3))]) =
      Inr [(PStr ''issue'', PStr ''Unknown''),
             (PStr ''root_cause'', PStr ''Unknown''),
             (PStr ''impact'', PStr ''Unknown''),
             (PStr ''resolution'', PStr ''Manual investigation required''),
             (PStr ''confidence'', PFloat (Finite 0.3)),
             (PStr ''executed'', PInt 1)]"
    by (simp add: merge_resolution_def overlay_def default_resolution_def flatten_command_id_def)
  have d1: "final_decision sample_float_of_str
            [(PStr ''issue'', PStr ''Unknown''),
             (PStr ''root_cause'', PStr ''Unknown''),
             (PStr ''impact'', PStr ''Unknown''),
             (PStr ''resolution'', PStr ''Manual investigation required''),
             (PStr ''confidence'', PFloat (Finite 1.7)),
             (PStr ''executed'', PBool False)] =
       Inr (''resolved'',
            [(PStr ''issue'', PStr ''Unknown''),
             (PStr ''root_cause'', PStr ''Unknown''),
             (PStr ''impact'', PStr ''Unknown''),
             (PStr ''resolution'', PStr ''Manual investigation required''),
             (PStr ''confidence'', PFloat (Finite 1.7)),
             (PStr ''executed'', PBool False)])"
    by (simp add: final_decision_def dict_get_default_def)
  have d2: "final_decision sample_float_of_str
            [(PStr ''issue'', PStr ''Unknown''),
             (PStr ''root_cause'', PStr ''Unknown''),
             (PStr ''impact'', PStr ''Unknown''),
             (PStr ''resolution'', PStr ''Manual investigation required''),
             (PStr ''confidence'', PFloat (Finite 0.3)),
             (PStr ''executed'', PInt 1)] =
       Inr (''pending_human'',
            [(PStr ''issue'', PStr ''Unknown''),
             (PStr ''root_cause'', PStr ''Unknown''),
             (PStr ''impact'', PStr ''Unknown''),
             (PStr ''resolution'', PStr ''Manual investigation required''),
             (PStr ''confidence'', PFloat (Finite 0.3)),
             (PStr ''executed'', PInt 1)])"
    by (simp add: final_decision_def dict_get_default_def)
  have p1: \<open>fst (process_alert (sample_externals (kickoff_returns [analyzer_says ''{"confidence": 1.7}'']))
          sample_alert initial_world) =
     Inr \<lparr>status = ''resolved'', resp_incident_id = ''6f1c2d3e-0000-4000-8000-000000000001'',
          resolution =
            [(PStr ''issue'', PStr ''Unknown''),
             (PStr ''root_cause'', PStr ''Unknown''),
             (PStr ''impact'', PStr ''Unknown''),
             (PStr ''resolution'', PStr ''Manual investigation required''),
             (PStr ''confidence'', PFloat (Finite 1.7)),
             (PStr ''executed'', PBool False)]\<rparr>\<close>
    by (simp add: process_alert_def sample_externals_def initial_world_def sample_retry e1 m1 d1
        sample_incident_id Let_def)
  have p2: \<open>fst (process_alert
          (sample_externals (kickoff_returns [executor_says ''{"executed": 1, "confidence": 0.3}'']))
          sample_alert initial_world) =
     Inr \<lparr>status = ''pending_human'', resp_incident_id = ''6f1c2d3e-0000-4000-8000-000000000001'',
          resolution =
            [(PStr ''issue'', PStr ''Unknown''),
             (PStr ''root_cause'', PStr ''Unknown''),
             (PStr ''impact'', PStr ''Unknown''),
             (PStr ''resolution'', PStr ''Manual investigation required''),
             (PStr ''confidence'', PFloat (Finite 0.3)),
             (PStr ''executed'', PInt 1)]\<rparr>\<close>
    by (simp add: process_alert_def sample_externals_def initial_world_def sample_retry e2 m2 d2
        sample_incident_id Let_def)
  have n1: "\<not> confidence_in_unit_interval
            [(PStr ''issue'', PStr ''Unknown''),
             (PStr ''root_cause'', PStr ''Unknown''),
             (PStr ''impact'', PStr ''Unknown''),
             (PStr ''resolution'', PStr ''Manual investigation required''),
             (PStr ''confidence'', PFloat (Finite 1.7)),
             (PStr ''executed'', PBool False)]"
    by (simp add: confidence_in_unit_interval_def)
  have n2: "\<not> executed_is_boolean
            [(PStr ''issue'', PStr ''Unknown''),
             (PStr ''root_cause'', PStr ''Unknown''),
             (PStr ''impact'', PStr ''Unknown''),
             (PStr ''resolution'', PStr ''Manual investigation required''),
             (PStr ''confidence'', PFloat (Finite 0.3)),
             (PStr ''executed'', PInt 1)]"
    by (simp add: executed_is_boolean_def)
  show ?thesis using sample_valid p1 p2 n1 n2 by simp
qed

section \<open>Properties of the retrieval tool\<close>

lemma rerank_length: "length (rerank docs scores) \<le> 3"
  by (simp add: rerank_def)

lemma rerank_descending: "sorted_wrt (\<lambda>x y. snd y \<le> snd x) (rerank docs scores)"
proof -
  have "sorted (map (\<lambda>x. - snd x) (sort_key (\<lambda>x. - snd x) (zip docs scores)))"
    by (rule sorted_sort_key)
  then have "sorted_wrt (\<lambda>x y. - snd x \<le> - snd y) (sort_key (\<lambda>x. - snd x) (zip docs scores))"
    by (simp add: sorted_wrt_map)
  then have "sorted_wrt (\<lambda>x y. snd y \<le> snd x) (sort_key (\<lambda>x. - snd x) (zip docs scores))"
    by simp
  then show ?thesis unfolding rerank_def by (rule sorted_wrt_take)
qed

lemma rerank_keeps_best:
  assumes "x \<in> set (rerank docs scores)"
    and "y \<in> set (drop 3 (sort_key (\<lambda>x. - snd x) (zip docs scores)))"
  shows "snd y \<le> snd x"
proof -
  let ?s = "sort_key (\<lambda>x. - snd x) (zip docs scores)"
  have "sorted (map (\<lambda>x. - snd x) ?s)" by (rule sorted_sort_key)
  then have "sorted_wrt (\<lambda>x y. snd y \<le> snd x) ?s" by (simp add: sorted_wrt_map)
  then have "sorted_wrt (\<lambda>x y. snd y \<le> snd x) (take 3 ?s @ drop 3 ?s)" by simp
  then show ?thesis using assms unfolding rerank_def sorted_wrt_append by blast
qed

lemma rerank_candidates:
  "set (rerank docs scores) \<union> set (drop 3 (sort_key (\<lambda>x. - snd x) (zip docs scores))) =
     set (zip docs scores)"
proof -
  let ?s = "sort_key (\<lambda>x. - snd x) (zip docs scores)"
  have "set (take 3 ?s) \<union> set (drop 3 ?s) = set (take 3 ?s @ drop 3 ?s)"
    by (simp only: set_append)
  also have "\<dots> = set ?s" by (simp only: append_take_drop_id)
  also have "\<dots> = set (zip docs scores)" by simp
  finally show ?thesis by (simp add: rerank_def)
qed

lemma rag_nonempty_only_when_all_succeed:
  assumes "RAGTool_run X query \<noteq> []"
  shows "\<exists>resp_body query_embedding search_response hits_obj hits_list hits docs scores.
           get_opensearch_client X = None \<and>
           invoke_model X query = Inr resp_body \<and>
           get_method resp_body ''embedding'' (PList []) = Inr query_embedding \<and>
           truthy query_embedding \<and>
           search X ''runbooks'' (query_body query_embedding) = Inr search_response \<and>
           subscript search_response ''hits'' = Inr hits_obj \<and>
           subscript hits_obj ''hits'' = Inr hits_list \<and>
           iterate hits_list = Inr hits \<and>
           contents_of hits = Inr docs \<and> docs \<noteq> [] \<and>
           predict X (map (Pair query) docs) = Inr scores \<and>
           RAGTool_run X query = map fst (rerank docs scores)"
proof -
  have c: "get_opensearch_client X = None"
    using assms by (cases "get_opensearch_client X") (simp_all add: RAGTool_run_def rag_body_def)
  obtain resp_body where i: "invoke_model X query = Inr resp_body"
    using assms c by (cases "invoke_model X query") (simp_all add: RAGTool_run_def rag_body_def)
  obtain emb where g: "get_method resp_body ''embedding'' (PList []) = Inr emb"
    using assms c i
    by (cases "get_method resp_body ''embedding'' (PList [])")
       (simp_all add: RAGTool_run_def rag_body_def)
  have t: "truthy emb"
    using assms c i g by (cases "truthy emb") (simp_all add: RAGTool_run_def rag_body_def)
  obtain sr where s: "search X ''runbooks'' (query_body emb) = Inr sr"
    using assms c i g t
    by (cases "search X ''runbooks'' (query_body emb)") (simp_all add: RAGTool_run_def rag_body_def)
  obtain ho where h1: "subscript sr ''hits'' = Inr ho"
    using assms c i g t s
    by (cases "subscript sr ''hits''") (simp_all add: RAGTool_run_def rag_body_def)
  obtain hl where h2: "subscript ho ''hits'' = Inr hl"
    using assms c i g t s h1
    by (cases "subscript ho ''hits''") (simp_all add: RAGTool_run_def rag_body_def)
  obtain hits where it: "iterate hl = Inr hits"
    using assms c i g t s h1 h2
    by (cases "iterate hl") (simp_all add: RAGTool_run_def rag_body_def)
  obtain docs where d: "contents_of hits = Inr docs"
    using assms c i g t s h1 h2 it
    by (cases "contents_of hits") (simp_all add: RAGTool_run_def rag_body_def)
  have dn: "docs \<noteq> []"
    using assms c i g t s h1 h2 it d
    by (cases "docs = []") (simp_all add: RAGTool_run_def rag_body_def)
  obtain scores where p: "predict X (map (Pair query) docs) = Inr scores"
    using assms c i g t s h1 h2 it d dn
    by (cases "predict X (map (Pair query) docs)") (simp_all add: RAGTool_run_def rag_body_def)
  have r: "RAGTool_run X query = map fst (rerank docs scores)"
    using c i g t s h1 h2 it d dn p by (simp add: RAGTool_run_def rag_body_def)
  show ?thesis using c i g t s h1 h2 it d dn p r by blast
qed

text \<open>
  Claim C8. For every query the retrieval returns at most three documents and never
  raises. Stage by stage: when building the search client raises, when the embedding call
  raises, when its response has no \<^verbatim>\<open>get\<close> method, when the embedding is empty
  (or otherwise false), when the search raises, when its response lacks
  \<^verbatim>\<open>["hits"]["hits"]\<close> or that value cannot be iterated, when a hit lacks
  \<^verbatim>\<open>["_source"]["content"]\<close>, when there is no hit, or when the cross-encoder
  raises, the result is the empty list. The search is asked, on the index
  \<^verbatim>\<open>runbooks\<close>, for \<^verbatim>\<open>size = 10\<close> hits of a k-NN query on the embedding with
  \<^verbatim>\<open>k = 10\<close>. When every stage succeeds the result is the documents of the first
  three candidates in the stable descending order of their scores: as many as there are
  scored candidates, up to three; the kept candidates are in descending order of score;
  they and the dropped ones together are exactly the scored candidates; and no dropped
  candidate scores higher than a kept one. Conversely a non-empty result arises only when
  every stage has succeeded. Scores are numbers (a NaN score is outside the model).
\<close>

theorem retrieval_bounded_ranked_total:
  "length (RAGTool_run X query) \<le> 3 \<and>
   (get_opensearch_client X = Some e \<longrightarrow> RAGTool_run X query = []) \<and>
   (get_opensearch_client X = None \<longrightarrow>
     (invoke_model X query = Inl e \<longrightarrow> RAGTool_run X query = []) \<and>
     (invoke_model X query = Inr resp_body \<longrightarrow>
       (get_method resp_body ''embedding'' (PList []) = Inl e \<longrightarrow> RAGTool_run X query = []) \<and>
       (get_method resp_body ''embedding'' (PList []) = Inr query_embedding \<longrightarrow>
         (\<not> truthy query_embedding \<longrightarrow> RAGTool_run X query = []) \<and>
         (truthy query_embedding \<longrightarrow>
           (search X ''runbooks''
              (PDict [(PStr ''size'', PInt 10),
                      (PStr ''query'',
                       PDict [(PStr ''knn'',
                               PDict [(PStr ''vector_field'',
                                       PDict [(PStr ''vector'', query_embedding),
                                              (PStr ''k'', PInt 10)])])])]) = Inl e \<longrightarrow>
              RAGTool_run X query = []) \<and>
           (search X ''runbooks''
              (PDict [(PStr ''size'', PInt 10),
                      (PStr ''query'',
                       PDict [(PStr ''knn'',
                               PDict [(PStr ''vector_field'',
                                       PDict [(PStr ''vector'', query_embedding),
                                              (PStr ''k'', PInt 10)])])])]) = Inr search_response \<longrightarrow>
             (subscript search_response ''hits'' = Inl e \<longrightarrow> RAGTool_run X query = []) \<and>
             (subscript search_response ''hits'' = Inr hits_obj \<longrightarrow>
               (subscript hits_obj ''hits'' = Inl e \<longrightarrow> RAGTool_run X query = []) \<and>
               (subscript hits_obj ''hits'' = Inr hits_list \<longrightarrow>
                 (iterate hits_list = Inl e \<longrightarrow> RAGTool_run X query = []) \<and>
                 (iterate hits_list = Inr hits \<longrightarrow>
                   (contents_of hits = Inl e \<longrightarrow> RAGTool_run X query = []) \<and>
                   (contents_of hits = Inr docs \<longrightarrow>
                     (docs = [] \<longrightarrow> RAGTool_run X query = []) \<and>
                     (docs \<noteq> [] \<longrightarrow>
                       (predict X (map (Pair query) docs) = Inl e \<longrightarrow> RAGTool_run X query = []) \<and>
                       (predict X (map (Pair query) docs) = Inr scores \<longrightarrow>
                          RAGTool_run X query = map fst (rerank docs scores) \<and>
                          length (rerank docs scores) = min 3 (min (length docs) (length scores)) \<and>
                          sorted_wrt (\<lambda>x y. snd y \<le> snd x) (rerank docs scores) \<and>
                          set (rerank docs scores) \<union>
                            set (drop 3 (sort_key (\<lambda>x. - snd x) (zip docs scores))) =
                            set (zip docs scores) \<and>
                          (\<forall>x \<in> set (rerank docs scores).
                             \<forall>y \<in> set (drop 3 (sort_key (\<lambda>x. - snd x) (zip docs scores))).
                               snd y \<le> snd x)))))))))))) \<and>
   (RAGTool_run X query \<noteq> [] \<longrightarrow>
      (\<exists>resp_body query_embedding search_response hits_obj hits_list hits docs scores.
           get_opensearch_client X = None \<and>
           invoke_model X query = Inr resp_body \<and>
           get_method resp_body ''embedding'' (PList []) = Inr query_embedding \<and>
           truthy query_embedding \<and>
           search X ''runbooks''
              (PDict [(PStr ''size'', PInt 10),
                      (PStr ''query'',
                       PDict [(PStr ''knn'',
                               PDict [(PStr ''vector_field'',
                                       PDict [(PStr ''vector'', query_embedding),
                                              (PStr ''k'', PInt 10)])])])]) = Inr search_response \<and>
           subscript search_response ''hits'' = Inr hits_obj \<and>
           subscript hits_obj ''hits'' = Inr hits_list \<and>
           iterate hits_list = Inr hits \<and>
           contents_of hits = Inr docs \<and> docs \<noteq> [] \<and>
           predict X (map (Pair query) docs) = Inr scores \<and>
           RAGTool_run X query = map fst (rerank docs scores)))"
proof -
  have len: "length (RAGTool_run X query) \<le> 3"
  proof (cases "RAGTool_run X query = []")
    case True
    then show ?thesis by simp
  next
    case False
    from rag_nonempty_only_when_all_succeed[OF this] obtain docs scores where
      "RAGTool_run X query = map fst (rerank docs scores)" by blast
    then show ?thesis using rerank_length[of docs scores] by simp
  qed
  have run: "(get_opensearch_client X = Some e \<longrightarrow> RAGTool_run X query = []) \<and>
   (get_opensearch_client X = None \<longrightarrow>
     (invoke_model X query = Inl e \<longrightarrow> RAGTool_run X query = []) \<and>
     (invoke_model X query = Inr resp_body \<longrightarrow>
       (get_method resp_body ''embedding'' (PList []) = Inl e \<longrightarrow> RAGTool_run X query = []) \<and>
       (get_method resp_body ''embedding'' (PList []) = Inr query_embedding \<longrightarrow>
         (\<not> truthy query_embedding \<longrightarrow> RAGTool_run X query = []) \<and>
         (truthy query_embedding \<longrightarrow>
           (search X ''runbooks'' (query_body query_embedding) = Inl e \<longrightarrow>
              RAGTool_run X query = []) \<and>
           (search X ''runbooks'' (query_body query_embedding) = Inr search_response \<longrightarrow>
             (subscript search_response ''hits'' = Inl e \<longrightarrow> RAGTool_run X query = []) \<and>
             (subscript search_response ''hits'' = Inr hits_obj \<longrightarrow>
               (subscript hits_obj ''hits'' = Inl e \<longrightarrow> RAGTool_run X query = []) \<and>
               (subscript hits_obj ''hits'' = Inr hits_list \<longrightarrow>
                 (iterate hits_list = Inl e \<longrightarrow> RAGTool_run X query = []) \<and>
                 (iterate hits_list = Inr hits \<longrightarrow>
                   (contents_of hits = Inl e \<longrightarrow> RAGTool_run X query = []) \<and>
                   (contents_of hits = Inr docs \<longrightarrow>
                     (docs = [] \<longrightarrow> RAGTool_run X query = []) \<and>
                     (docs \<noteq> [] \<longrightarrow>
                       (predict X (map (Pair query) docs) = Inl e \<longrightarrow> RAGTool_run X query = []) \<and>
                       (predict X (map (Pair query) docs) = Inr scores \<longrightarrow>
                          RAGTool_run X query = map fst (rerank docs scores))))))))))))"
    by (simp add: RAGTool_run_def rag_body_def)
  have rl: "length (rerank docs scores) = min 3 (min (length docs) (length scores))"
    by (simp add: rerank_def min.commute)
  show ?thesis
    using len run[unfolded query_body_def] rl rerank_descending[of docs scores]
      rerank_candidates[of docs scores] rerank_keeps_best[of _ docs scores]
      rag_nonempty_only_when_all_succeed[of X query, unfolded query_body_def]
    by blast
qed

theorem retrieval_bounded_ranked_total_witness:
  "RAGTool_run sample_rag ''DB timeout'' =
     [PStr ''runbook-db-timeout'', PStr ''runbook-disk'', PStr ''runbook-network''] \<and>
   rerank [PStr ''runbook-other'', PStr ''runbook-db-timeout'', PStr ''runbook-network'',
           PStr ''runbook-disk''] [0.1, 0.9, 0.3, 0.7] =
     [(PStr ''runbook-db-timeout'', 0.9), (PStr ''runbook-disk'', 0.7), (PStr ''runbook-network'', 0.3)] \<and>
   get_opensearch_client sample_rag_no_client = Some (Exc RuntimeError ''OPENSEARCH_URL not set in .env'') \<and>
   RAGTool_run sample_rag_no_client ''DB timeout'' = [] \<and>
   subscript (PDict [(PStr ''took'', PInt 3)]) ''hits'' = Inl (Exc KeyError ''hits'') \<and>
   RAGTool_run sample_rag_no_hits_key ''DB timeout'' = []"
proof -
  let ?emb = "PList [PFloat (Finite 0.1), PFloat (Finite 0.2), PFloat (Finite 0.3)]"
  let ?body = "PDict [(PStr ''size'', PInt 10),
                      (PStr ''query'',
                       PDict [(PStr ''knn'',
                               PDict [(PStr ''vector_field'',
                                       PDict [(PStr ''vector'', ?emb),
                                              (PStr ''k'', PInt 10)])])])]"
  let ?hits = "[hit_with ''runbook-other'', hit_with ''runbook-db-timeout'',
                hit_with ''runbook-network'', hit_with ''runbook-disk'']"
  let ?docs = "[PStr ''runbook-other'', PStr ''runbook-db-timeout'', PStr ''runbook-network'',
                PStr ''runbook-disk'']"
  let ?scores = "[0.1, 0.9, 0.3, 0.7] :: real list"
  have r: "rerank ?docs ?scores =
     [(PStr ''runbook-db-timeout'', 0.9), (PStr ''runbook-disk'', 0.7), (PStr ''runbook-network'', 0.3)]"
    by (simp add: rerank_def)
  have c: "contents_of ?hits = Inr ?docs"
    by (simp add: hit_with_def)
  have h1: "get_opensearch_client sample_rag = None" by (simp add: sample_rag_def)
  have h2: "invoke_model sample_rag ''DB timeout'' = Inr (PDict [(PStr ''embedding'', ?emb)])"
    by (simp add: sample_rag_def)
  have h3: "get_method (PDict [(PStr ''embedding'', ?emb)]) ''embedding'' (PList []) = Inr ?emb"
    by (simp add: dict_get_default_def)
  have h4: "truthy ?emb" by simp
  have h5: "search sample_rag ''runbooks'' ?body =
      Inr (PDict [(PStr ''hits'', PDict [(PStr ''hits'', PList ?hits)])])"
    by (simp add: sample_rag_def)
  have h6: "subscript (PDict [(PStr ''hits'', PDict [(PStr ''hits'', PList ?hits)])]) ''hits'' =
      Inr (PDict [(PStr ''hits'', PList ?hits)])"
    by simp
  have h7: "subscript (PDict [(PStr ''hits'', PList ?hits)]) ''hits'' = Inr (PList ?hits)"
    by simp
  have h8: "iterate (PList ?hits) = Inr ?hits" by simp
  have h10: "?docs \<noteq> []" by simp
  have h11: "predict sample_rag (map (Pair ''DB timeout'') ?docs) = Inr ?scores"
    by (simp add: sample_rag_def)
  have "RAGTool_run sample_rag ''DB timeout'' = map fst (rerank ?docs ?scores)"
    using retrieval_bounded_ranked_total
      [where X = sample_rag and query = "''DB timeout''"
         and resp_body = "PDict [(PStr ''embedding'', ?emb)]" and query_embedding = ?emb
         and search_response = "PDict [(PStr ''hits'', PDict [(PStr ''hits'', PList ?hits)])]"
         and hits_obj = "PDict [(PStr ''hits'', PList ?hits)]" and hits_list = "PList ?hits"
         and hits = ?hits and docs = ?docs and scores = ?scores]
      h1 h2 h3 h4 h5 h6 h7 h8 c h10 h11
    by blast
  then have a: "RAGTool_run sample_rag ''DB timeout'' =
     [PStr ''runbook-db-timeout'', PStr ''runbook-disk'', PStr ''runbook-network'']"
    by (simp only: r list.map fst_conv)
  have n: "get_opensearch_client sample_rag_no_client =
      Some (Exc RuntimeError ''OPENSEARCH_URL not set in .env'')"
    by (simp add: sample_rag_no_client_def)
  have b: "RAGTool_run sample_rag_no_client ''DB timeout'' = []"
    using retrieval_bounded_ranked_total
      [where X = sample_rag_no_client and query = "''DB timeout''"
         and e = "Exc RuntimeError ''OPENSEARCH_URL not set in .env''"] n
    by blast
  have k1: "get_opensearch_client sample_rag_no_hits_key = None"
    by (simp add: sample_rag_no_hits_key_def sample_rag_def)
  have k2: "invoke_model sample_rag_no_hits_key ''DB timeout'' = Inr (PDict [(PStr ''embedding'', ?emb)])"
    by (simp add: sample_rag_no_hits_key_def sample_rag_def)
  have k5: "search sample_rag_no_hits_key ''runbooks'' ?body = Inr (PDict [(PStr ''took'', PInt 3)])"
    by (simp add: sample_rag_no_hits_key_def)
  have k6: "subscript (PDict [(PStr ''took'', PInt 3)]) ''hits'' = Inl (Exc KeyError ''hits'')"
    by simp
  have d: "RAGTool_run sample_rag_no_hits_key ''DB timeout'' = []"
    using retrieval_bounded_ranked_total
      [where X = sample_rag_no_hits_key and query = "''DB timeout''"
         and resp_body = "PDict [(PStr ''embedding'', ?emb)]" and query_embedding = ?emb
         and search_response = "PDict [(PStr ''took'', PInt 3)]"
         and e = "Exc KeyError ''hits''"]
      k1 k2 h3 h4 k5 k6
    by blast
  show ?thesis using a b r n d k6 by simp
qed

end
